theory Spec2Isabelle
  imports Complex_Main "HOL-Library.AList"
begin

section \<open>Data model\<close>

text \<open>
  A JavaScript string is a sequence of UTF-16 code units; the regular expressions of the
  source (none carries the \<open>u\<close> flag) work on code units. A string is modelled as the
  list of its code units, and \<open>js\<close> embeds an ASCII literal.

  A JavaScript \<open>number\<close> is modelled as a real: arithmetic is exact, and the infinities
  are outside the model. The store's readers replace an unparsable cell by \<open>0\<close>, so the
  numbers of a holding are never \<open>NaN\<close>; where \<open>parseFloat\<close> can yield \<open>NaN\<close> in the
  price fetchers, the value is an option and \<open>None\<close> stands for \<open>NaN\<close>. The only falsy
  real is \<open>0\<close>.
\<close>

type_synonym jsstring = "nat list"

definition js :: "string \<Rightarrow> jsstring" where
  "js s = map of_char s"

datatype Currency = JPY | USD

datatype AssetCategory =
  domestic_stock | us_stock | mutual_fund | cash | bond | real_estate | crypto
  | insurance | pension

datatype AccountType = nisa | specific | general

text \<open>
  \<open>interface Holding\<close> of the type definitions; the four calculated fields are optional
  in the source and absent until the valuation fills them.
\<close>

record Holding =
  hid :: jsstring
  symbol :: jsstring
  name :: jsstring
  category :: AssetCategory
  quantity :: real
  avgCost :: real
  currency :: Currency
  accountType :: AccountType
  createdAt :: jsstring
  currentPrice :: "real option"
  totalValue :: "real option"
  unrealizedPL :: "real option"
  unrealizedPLPercent :: "real option"

text \<open>The value type of the price map, \<open>{ price: number; currency: string }\<close>.\<close>

record PriceData =
  price :: real
  pcurrency :: jsstring

text \<open>
  A JavaScript \<open>Map\<close> keeps its keys in insertion order, and \<open>set\<close> on a key that is
  present replaces the value in place: that is \<open>AList.update\<close> on an association list.
\<close>

type_synonym 'v jsmap = "(jsstring \<times> 'v) list"

definition mget :: "('k \<times> 'v) list \<Rightarrow> 'k \<Rightarrow> 'v option" where
  "mget m k = map_of m k"

definition mset_entry :: "'k \<Rightarrow> 'v \<Rightarrow> ('k \<times> 'v) list \<Rightarrow> ('k \<times> 'v) list" where
  "mset_entry k v m = AList.update k v m"



text \<open>
  \<open>a || b\<close> on numbers, where \<open>a\<close> may be \<open>undefined\<close> (written \<open>None\<close>): the left
  operand when it is truthy, the right one otherwise.
\<close>

definition orNum :: "real option \<Rightarrow> real \<Rightarrow> real" where
  "orNum a b = (case a of None \<Rightarrow> b | Some x \<Rightarrow> if x = 0 then b else x)"

section \<open>Exchange-rate helpers (exchangeRate.ts)\<close>

definition convertUsdToJpy :: "real \<Rightarrow> real \<Rightarrow> real" where
  "convertUsdToJpy usdAmount rate = usdAmount * rate"

section \<open>Valuation (calculations)\<close>

text \<open>The body of the \<open>holdings.map\<close> callback of \<open>calculateHoldingsValue\<close>.\<close>

definition holdingCurrentPrice :: "PriceData jsmap \<Rightarrow> Holding \<Rightarrow> real" where
  "holdingCurrentPrice prices holding =
     orNum (map_option price (mget prices (symbol holding))) (avgCost holding)"

definition enrichHolding :: "PriceData jsmap \<Rightarrow> Holding \<Rightarrow> Holding" where
  "enrichHolding prices holding =
     (let cp = holdingCurrentPrice prices holding;
          tv = cp * quantity holding;
          costBasis = avgCost holding * quantity holding;
          pl = tv - costBasis;
          plPercent = (if costBasis > 0 then (pl / costBasis) * 100 else 0)
      in holding\<lparr>currentPrice := Some cp, totalValue := Some tv,
                  unrealizedPL := Some pl, unrealizedPLPercent := Some plPercent\<rparr>)"

definition holdingValueJPY :: "PriceData jsmap \<Rightarrow> real \<Rightarrow> Holding \<Rightarrow> real" where
  "holdingValueJPY prices usdJpyRate holding =
     (let tv = holdingCurrentPrice prices holding * quantity holding
      in if currency holding = USD then convertUsdToJpy tv usdJpyRate else tv)"

definition calculateHoldingsValue ::
  "Holding list \<Rightarrow> PriceData jsmap \<Rightarrow> real \<Rightarrow> Holding list \<times> real" where
  "calculateHoldingsValue holdings prices usdJpyRate =
     (map (enrichHolding prices) holdings,
      foldl (\<lambda>totalJPY h. totalJPY + holdingValueJPY prices usdJpyRate h) 0 holdings)"

section \<open>Regular expressions of the source\<close>

text \<open>
  The patterns of the source are sequences of: one code unit of a class, a greedy
  repetition of a class (\<open>*\<close>, \<open>+\<close>, \<open>?\<close>, \<open>{n}\<close>, \<open>{n,}\<close>), an alternative of two
  literals, the brackets of capture group 1, and the anchor \<open>$\<close>. The matcher is the
  backtracking one of ECMAScript: a greedy repetition first takes as many code units as it
  can and gives them back one at a time while the rest of the pattern fails. The result is
  the text of group 1 (empty when the pattern has no group), \<open>None\<close> when nothing matches.
\<close>

datatype ritem =
    One "nat \<Rightarrow> bool"
  | Rep "nat \<Rightarrow> bool" nat "nat option"
  | AltLit jsstring jsstring
  | OpenG
  | CloseG
  | EndAnchor

definition isPrefix :: "jsstring \<Rightarrow> jsstring \<Rightarrow> bool" where
  "isPrefix a s = (take (length a) s = a)"

function matchHere :: "ritem list \<Rightarrow> jsstring \<Rightarrow> jsstring \<Rightarrow> jsstring \<Rightarrow> jsstring option"
  and giveBack :: "ritem list \<Rightarrow> jsstring \<Rightarrow> jsstring \<Rightarrow> jsstring \<Rightarrow> nat \<Rightarrow> nat \<Rightarrow> jsstring option"
where
  "matchHere [] s opened cap = Some cap"
| "matchHere (One c # r) s opened cap =
     (case s of [] \<Rightarrow> None | x # xs \<Rightarrow> if c x then matchHere r xs opened cap else None)"
| "matchHere (Rep c lo hi # r) s opened cap =
     (let n = length (takeWhile c s);
          m = (case hi of None \<Rightarrow> n | Some h \<Rightarrow> min n h)
      in if m < lo then None else giveBack r s opened cap m lo)"
| "matchHere (AltLit a b # r) s opened cap =
     (case (if isPrefix a s then matchHere r (drop (length a) s) opened cap else None) of
        Some g \<Rightarrow> Some g
      | None \<Rightarrow> if isPrefix b s then matchHere r (drop (length b) s) opened cap else None)"
| "matchHere (OpenG # r) s opened cap = matchHere r s s cap"
| "matchHere (CloseG # r) s opened cap =
     matchHere r s opened (take (length opened - length s) opened)"
| "matchHere (EndAnchor # r) s opened cap =
     (if s = [] then matchHere r s opened cap else None)"
| "giveBack r s opened cap k lo =
     (case matchHere r (drop k s) opened cap of
        Some g \<Rightarrow> Some g
      | None \<Rightarrow> if lo < k then giveBack r s opened cap (k - 1) lo else None)"
  by pat_completeness auto
termination
  by (relation "measures
        [\<lambda>x. case x of Inl (r, _) \<Rightarrow> 2 * length r | Inr (r, _) \<Rightarrow> 2 * length r + 1,
         \<lambda>x. case x of Inl _ \<Rightarrow> 0 | Inr (_, _, _, _, k, _) \<Rightarrow> k]") auto

declare giveBack.simps [simp del]

text \<open>A pattern anchored with \<open>^\<close> is tried at index 0 only.\<close>

definition matchAnchored :: "ritem list \<Rightarrow> jsstring \<Rightarrow> jsstring option" where
  "matchAnchored p s = matchHere p s [] []"

text \<open>\<open>String.prototype.match\<close> without \<open>^\<close>: the leftmost index where the pattern matches.\<close>

fun matchFirst :: "ritem list \<Rightarrow> jsstring \<Rightarrow> jsstring option" where
  "matchFirst p [] = matchHere p [] [] []"
| "matchFirst p (x # xs) =
     (case matchHere p (x # xs) [] [] of Some g \<Rightarrow> Some g | None \<Rightarrow> matchFirst p xs)"

definition lit :: "jsstring \<Rightarrow> ritem list" where
  "lit s = map (\<lambda>c. One (\<lambda>x. x = c)) s"

definition isDigit :: "nat \<Rightarrow> bool" where
  "isDigit c = (48 \<le> c \<and> c \<le> 57)"

definition isLetter :: "nat \<Rightarrow> bool" where
  "isLetter c = ((65 \<le> c \<and> c \<le> 90) \<or> (97 \<le> c \<and> c \<le> 122))"

definition isAlnum :: "nat \<Rightarrow> bool" where
  "isAlnum c = (isLetter c \<or> isDigit c)"

definition isDigitOrComma :: "nat \<Rightarrow> bool" where
  "isDigitOrComma c = (isDigit c \<or> c = 44)"

text \<open>The class \<open>\s\<close> of ECMAScript: white space and line terminators.\<close>

definition isSpace :: "nat \<Rightarrow> bool" where
  "isSpace c = (c \<in> {9, 10, 11, 12, 13, 32, 160, 5760, 8232, 8233, 8239, 8287, 12288, 65279}
                \<or> (8192 \<le> c \<and> c \<le> 8202))"

section \<open>Price fetching (stockApi.ts)\<close>

record StockQuote =
  qsymbol :: jsstring
  qname :: jsstring
  qprice :: real
  previousClose :: "real option"
  change :: "real option"
  changePercent :: real
  qcurrency :: Currency

text \<open>
  In a \<open>StockQuote\<close> the fields \<open>previousClose\<close> and \<open>change\<close> are numbers; the fund
  path computes them with \<open>parseFloat\<close>, which yields \<open>NaN\<close> on a sign or separators
  without a digit. \<open>None\<close> stands for that \<open>NaN\<close>: it is falsy, and every comparison with
  it is false.
\<close>

definition currencyTag :: "Currency \<Rightarrow> jsstring" where
  "currencyTag c = (case c of JPY \<Rightarrow> js ''JPY'' | USD \<Rightarrow> js ''USD'')"

subsection \<open>The Yahoo v8 chart API\<close>

text \<open>
  What \<open>fetchStockPriceV8\<close> reads of the decoded response, \<open>data.chart?.result?.[0]\<close>:
  the \<open>meta\<close> object and the list \<open>indicators?.quote?.[0]?.close\<close>, whose entries may be
  \<open>null\<close>. A missing property is \<open>None\<close>.
\<close>

record ChartMeta =
  regularMarketPrice :: "real option"
  metaPreviousClose :: "real option"
  shortName :: "jsstring option"
  longName :: "jsstring option"
  metaCurrency :: "jsstring option"

record ChartResult =
  meta :: "ChartMeta option"
  close :: "real option list option"

text \<open>\<open>closes[i]\<close> for a possibly negative index: \<open>undefined\<close> out of range.\<close>

definition closeAt :: "real option list \<Rightarrow> int \<Rightarrow> real option" where
  "closeAt closes i = (if 0 \<le> i \<and> i < int (length closes) then closes ! nat i else None)"

text \<open>\<open>a || b\<close> on strings: the empty string and \<open>undefined\<close> are falsy.\<close>

definition orStr :: "jsstring option \<Rightarrow> jsstring \<Rightarrow> jsstring" where
  "orStr a b = (case a of None \<Rightarrow> b | Some x \<Rightarrow> if x = [] then b else x)"

text \<open>
  \<open>fetchStockPriceV8\<close>, given what the request produced: \<open>None\<close> when \<open>fetch\<close> or
  \<open>response.json()\<close> threw, the response was not ok, or the payload has no result. A
  result without \<open>meta\<close> makes \<open>meta.regularMarketPrice\<close> throw inside the \<open>try\<close>, and the
  function returns \<open>null\<close>.
\<close>

definition fetchStockPriceV8 :: "(jsstring \<Rightarrow> ChartResult option) \<Rightarrow> jsstring \<Rightarrow> StockQuote option" where
  "fetchStockPriceV8 chart symb =
     (case chart symb of
        None \<Rightarrow> None
      | Some result \<Rightarrow>
          (case meta result of
             None \<Rightarrow> None
           | Some m \<Rightarrow>
               (let closes = (case close result of None \<Rightarrow> [] | Some cs \<Rightarrow> cs);
                    p = orNum (regularMarketPrice m)
                          (orNum (closeAt closes (int (length closes) - 1)) 0);
                    pc = orNum (metaPreviousClose m)
                           (orNum (closeAt closes (int (length closes) - 2)) p);
                    ch = p - pc;
                    chp = (if pc > 0 then (ch / pc) * 100 else 0)
                in Some \<lparr>qsymbol = symb,
                         qname = orStr (shortName m) (orStr (longName m) symb),
                         qprice = p, previousClose = Some pc, change = Some ch,
                         changePercent = chp,
                         qcurrency = (if metaCurrency m = Some (js ''JPY'') then JPY else USD)\<rparr>)))"

subsection \<open>The fund page and its net asset value\<close>

definition stripCommas :: "jsstring \<Rightarrow> jsstring" where
  "stripCommas s = filter (\<lambda>c. c \<noteq> 44) s"

definition digitsValue :: "jsstring \<Rightarrow> nat" where
  "digitsValue ds = foldl (\<lambda>acc c. 10 * acc + (c - 48)) 0 ds"

definition parseDigits :: "jsstring \<Rightarrow> real option" where
  "parseDigits s =
     (let ds = takeWhile isDigit s in if ds = [] then None else Some (real (digitsValue ds)))"

text \<open>
  \<open>parseFloat\<close> on the strings the source gives it: an optional sign and decimal digits
  (the text of a group \<open>[0-9,]+\<close> or \<open>[+-]?[0-9,]+\<close> with the commas removed, so there is
  no leading white space, fraction or exponent to read). The longest prefix of digits is
  the value; without a digit the result is \<open>NaN\<close>, here \<open>None\<close>.
\<close>

definition parseFloat :: "jsstring \<Rightarrow> real option" where
  "parseFloat s =
     (case s of
        [] \<Rightarrow> None
      | c # r \<Rightarrow>
          if c = 43 then parseDigits r
          else if c = 45 then map_option uminus (parseDigits r)
          else parseDigits s)"

definition kijunKagaku :: jsstring where
  "kijunKagaku = [22522, 28310, 20385, 38989]"

definition yen :: nat where
  "yen = 20870"

definition zenjitsuHi :: jsstring where
  "zenjitsuHi = [21069, 26085, 27604]"

definition notQuote :: "nat \<Rightarrow> bool" where
  "notQuote c = (c \<noteq> 34)"

definition notGt :: "nat \<Rightarrow> bool" where
  "notGt c = (c \<noteq> 62)"

text \<open>\<^verbatim>\<open>/class="[^"]*StyledNumber[^"]*"[^>]*>([0-9,]+)<\/span>/\<close>\<close>

definition priceMatch :: "ritem list" where
  "priceMatch =
     lit (js ''class='' @ [34]) @ [Rep notQuote 0 None] @ lit (js ''StyledNumber'')
     @ [Rep notQuote 0 None] @ lit [34] @ [Rep notGt 0 None] @ lit [62]
     @ [OpenG, Rep isDigitOrComma 1 None, CloseG] @ lit (js ''</span>'')"

text \<open>\<^verbatim>\<open>/<span[^>]*>([0-9,]+)<\/span>\s*Y/\<close>, \<open>Y\<close> the yen character U+5186\<close>

definition priceMatch2 :: "ritem list" where
  "priceMatch2 =
     lit (js ''<span'') @ [Rep notGt 0 None] @ lit [62]
     @ [OpenG, Rep isDigitOrComma 1 None, CloseG] @ lit (js ''</span>'')
     @ [Rep isSpace 0 None] @ lit [yen]"

text \<open>\<^verbatim>\<open>/KKKK[^0-9]*([0-9,]+)\s*Y/\<close>, \<open>KKKK\<close> the four-character label U+57FA U+6E96 U+4FA1 U+984D\<close>

definition priceMatch3 :: "ritem list" where
  "priceMatch3 =
     lit kijunKagaku @ [Rep (\<lambda>c. \<not> isDigit c) 0 None]
     @ [OpenG, Rep isDigitOrComma 1 None, CloseG] @ [Rep isSpace 0 None] @ lit [yen]"

text \<open>\<^verbatim>\<open>/content="[^"]*KKKK\s*([0-9,]+)/\<close>\<close>

definition ogMatch :: "ritem list" where
  "ogMatch =
     lit (js ''content='' @ [34]) @ [Rep notQuote 0 None] @ lit kijunKagaku
     @ [Rep isSpace 0 None] @ [OpenG, Rep isDigitOrComma 1 None, CloseG]"

text \<open>\<^verbatim>\<open>/data-(?:price|value)="([0-9,]+)"/\<close>\<close>

definition dataMatch :: "ritem list" where
  "dataMatch =
     lit (js ''data-'') @ [AltLit (js ''price'') (js ''value'')] @ lit (js ''='' @ [34])
     @ [OpenG, Rep isDigitOrComma 1 None, CloseG] @ lit [34]"

text \<open>
  The loop over the five match results: \<open>price\<close> starts at \<open>0\<close> and the first extracted
  value above \<open>0\<close> ends the loop. A group \<open>[0-9,]+\<close> is never empty, so \<open>match[1]\<close> is
  truthy whenever \<open>match\<close> is.
\<close>

fun firstPositive :: "jsstring option list \<Rightarrow> real" where
  "firstPositive [] = 0"
| "firstPositive (m # ms) =
     (case m of
        None \<Rightarrow> firstPositive ms
      | Some g \<Rightarrow>
          (if g = [] then firstPositive ms
           else (case parseFloat (stripCommas g) of
                   None \<Rightarrow> firstPositive ms
                 | Some extracted \<Rightarrow> if extracted > 0 then extracted else firstPositive ms)))"

definition navMatches :: "jsstring \<Rightarrow> jsstring option list" where
  "navMatches html =
     [matchFirst priceMatch html, matchFirst priceMatch2 html, matchFirst priceMatch3 html,
      matchFirst ogMatch html, matchFirst dataMatch html]"

definition navPrice :: "jsstring \<Rightarrow> real" where
  "navPrice html = firstPositive (navMatches html)"

text \<open>\<open>String.prototype.trim\<close>\<close>

definition trim :: "jsstring \<Rightarrow> jsstring" where
  "trim s = rev (dropWhile isSpace (rev (dropWhile isSpace s)))"

text \<open>\<^verbatim>\<open>/<title>([^B]+)/\<close>, \<open>B\<close> the bracket U+3010\<close>

definition nameMatch :: "ritem list" where
  "nameMatch = lit (js ''<title>'') @ [OpenG, Rep (\<lambda>c. c \<noteq> 12304) 1 None, CloseG]"

text \<open>\<^verbatim>\<open>/ZZZ[^0-9+-]*([+-]?[0-9,]+)/\<close>, \<open>ZZZ\<close> the label U+524D U+65E5 U+6BD4\<close>

definition changeMatch :: "ritem list" where
  "changeMatch =
     lit zenjitsuHi @ [Rep (\<lambda>c. \<not> isDigit c \<and> c \<noteq> 43 \<and> c \<noteq> 45) 0 None]
     @ [OpenG, Rep (\<lambda>c. c = 43 \<or> c = 45) 0 (Some 1), Rep isDigitOrComma 1 None, CloseG]"

text \<open>
  \<open>fetchMutualFundNAV\<close>, given the text of the page: \<open>None\<close> when \<open>fetch\<close> or
  \<open>response.text()\<close> threw or the response was not ok.
\<close>

definition fetchMutualFundNAV :: "(jsstring \<Rightarrow> jsstring option) \<Rightarrow> jsstring \<Rightarrow> StockQuote option" where
  "fetchMutualFundNAV page fundCode =
     (case page fundCode of
        None \<Rightarrow> None
      | Some html \<Rightarrow>
          (let p = navPrice html in
           if p = 0 then None
           else
             (let nm = (case matchFirst nameMatch html of
                          None \<Rightarrow> fundCode | Some g \<Rightarrow> trim g);
                  ch = (case matchFirst changeMatch html of
                          None \<Rightarrow> Some 0 | Some g \<Rightarrow> parseFloat (stripCommas g));
                  pc = map_option (\<lambda>c. p - c) ch;
                  chp = (case pc of
                           None \<Rightarrow> 0
                         | Some v \<Rightarrow> if v > 0 then (the ch / v) * 100 else 0)
              in Some \<lparr>qsymbol = fundCode, qname = nm, qprice = p, previousClose = pc,
                       change = ch, changePercent = chp, qcurrency = JPY\<rparr>)))"

subsection \<open>The batch fetcher\<close>

text \<open>\<^verbatim>\<open>/^[A-Za-z0-9]{8,}$/.test(symbol) && /[A-Za-z]/.test(symbol)\<close>\<close>

definition isMutualFundCode :: "jsstring \<Rightarrow> bool" where
  "isMutualFundCode symb =
     (matchAnchored [Rep isAlnum 8 None, EndAnchor] symb \<noteq> None
      \<and> matchFirst [One isLetter] symb \<noteq> None)"

text \<open>
  One pass of the batch loop: \<open>i\<close> advances by \<open>batchSize = 5\<close>, the five requests of a
  batch are awaited together and their results stored in the order of the batch. The
  pause between two batches has no effect on the result.
\<close>

definition storeQuotes :: "StockQuote option list \<Rightarrow> StockQuote jsmap \<Rightarrow> StockQuote jsmap" where
  "storeQuotes batchResults results =
     foldl (\<lambda>res r. case r of None \<Rightarrow> res | Some q \<Rightarrow> mset_entry (qsymbol q) q res)
       results batchResults"

function fetchBatches ::
  "(jsstring \<Rightarrow> StockQuote option) \<Rightarrow> jsstring list \<Rightarrow> StockQuote jsmap \<Rightarrow> StockQuote jsmap" where
  "fetchBatches fetchOne syms results =
     (if syms = [] then results
      else fetchBatches fetchOne (drop 5 syms)
             (storeQuotes (map fetchOne (take 5 syms)) results))"
  by pat_completeness auto
termination
  by (relation "measure (\<lambda>(f, syms, res). length syms)") auto

declare fetchBatches.simps [simp del]

definition fetchMultipleStockPrices ::
  "(jsstring \<Rightarrow> ChartResult option) \<Rightarrow> (jsstring \<Rightarrow> jsstring option) \<Rightarrow> jsstring list
   \<Rightarrow> StockQuote jsmap" where
  "fetchMultipleStockPrices chart page symbols =
     (let mutualFunds = filter (\<lambda>s. isMutualFundCode s) symbols;
          stocks = filter (\<lambda>s. \<not> isMutualFundCode s) symbols;
          results = fetchBatches (fetchStockPriceV8 chart) stocks []
      in fetchBatches (fetchMutualFundNAV page) mutualFunds results)"

section \<open>Symbol resolution (portfolio route)\<close>





section \<open>Category and portfolio summaries (calculations)\<close>

record OtherAsset =
  oid :: jsstring
  otype :: AssetCategory
  oname :: jsstring
  ovalue :: real
  ocurrency :: Currency
  oupdatedAt :: jsstring

record CategorySummary =
  cscategory :: AssetCategory
  label :: jsstring
  csvalue :: real
  valueJPY :: real
  percentage :: real
  color :: jsstring

definition categoryKey :: "AssetCategory \<Rightarrow> jsstring" where
  "categoryKey c =
     (case c of
        domestic_stock \<Rightarrow> js ''domestic_stock'' | us_stock \<Rightarrow> js ''us_stock''
      | mutual_fund \<Rightarrow> js ''mutual_fund'' | cash \<Rightarrow> js ''cash'' | bond \<Rightarrow> js ''bond''
      | real_estate \<Rightarrow> js ''real_estate'' | crypto \<Rightarrow> js ''crypto''
      | insurance \<Rightarrow> js ''insurance'' | pension \<Rightarrow> js ''pension'')"

text \<open>\<open>CATEGORY_CONFIG\<close>: the label (in code units) and the colour of each category.\<close>

definition CATEGORY_CONFIG :: "AssetCategory \<Rightarrow> (jsstring \<times> jsstring) option" where
  "CATEGORY_CONFIG c =
     (case c of
        domestic_stock \<Rightarrow> Some ([22269, 20869, 26666, 24335], js ''#6366f1'')
      | us_stock \<Rightarrow> Some ([31859, 22269, 26666, 24335], js ''#22c55e'')
      | mutual_fund \<Rightarrow> Some ([25237, 36039, 20449, 35351], js ''#f59e0b'')
      | cash \<Rightarrow> Some ([38928, 37329, 12539, 29694, 37329], js ''#3b82f6'')
      | bond \<Rightarrow> Some ([20661, 21048], js ''#8b5cf6'')
      | real_estate \<Rightarrow> Some ([19981, 21205, 29987], js ''#ec4899'')
      | crypto \<Rightarrow> Some ([26263, 21495, 36039, 29987], js ''#f97316'')
      | insurance \<Rightarrow> Some ([20445, 38522], js ''#14b8a6'')
      | pension \<Rightarrow> Some ([24180, 37329], js ''#64748b''))"

definition assetValueJPY :: "real \<Rightarrow> OtherAsset \<Rightarrow> real" where
  "assetValueJPY usdJpyRate asset =
     (if ocurrency asset = USD then convertUsdToJpy (ovalue asset) usdJpyRate
      else ovalue asset)"

definition calculateOtherAssetsValue :: "OtherAsset list \<Rightarrow> real \<Rightarrow> real" where
  "calculateOtherAssetsValue assets usdJpyRate =
     foldl (\<lambda>total asset. total + assetValueJPY usdJpyRate asset) 0 assets"

text \<open>The map \<open>categoryTotals\<close> after the two \<open>forEach\<close> loops.\<close>

definition addToCategory ::
  "AssetCategory \<Rightarrow> real \<Rightarrow> (AssetCategory \<times> real) list \<Rightarrow> (AssetCategory \<times> real) list" where
  "addToCategory c v categoryTotals =
     (let existing = orNum (mget categoryTotals c) 0
      in mset_entry c (existing + v) categoryTotals)"

definition categoryTotalsOf ::
  "Holding list \<Rightarrow> OtherAsset list \<Rightarrow> PriceData jsmap \<Rightarrow> real \<Rightarrow> (AssetCategory \<times> real) list" where
  "categoryTotalsOf holdings otherAssets prices usdJpyRate =
     foldl (\<lambda>m asset. addToCategory (otype asset) (assetValueJPY usdJpyRate asset) m)
       (foldl (\<lambda>m h. addToCategory (category h) (holdingValueJPY prices usdJpyRate h) m)
          [] holdings)
       otherAssets"

definition toSummary :: "real \<Rightarrow> AssetCategory \<times> real \<Rightarrow> CategorySummary" where
  "toSummary grandTotal entry =
     (let config = (case CATEGORY_CONFIG (fst entry) of
                      Some cfg \<Rightarrow> cfg
                    | None \<Rightarrow> (categoryKey (fst entry), js ''#888''))
      in \<lparr>cscategory = fst entry, label = fst config, csvalue = snd entry,
          valueJPY = snd entry,
          percentage = (if grandTotal > 0 then (snd entry / grandTotal) * 100 else 0),
          color = snd config\<rparr>)"

text \<open>
  \<open>Array.prototype.sort\<close> is stable; with the comparator \<open>b.value - a.value\<close> it orders
  by falling value, which is the insertion sort on the negated value.
\<close>

definition generateCategorySummary ::
  "Holding list \<Rightarrow> OtherAsset list \<Rightarrow> PriceData jsmap \<Rightarrow> real \<Rightarrow> CategorySummary list" where
  "generateCategorySummary holdings otherAssets prices usdJpyRate =
     (let categoryTotals = categoryTotalsOf holdings otherAssets prices usdJpyRate;
          grandTotal = foldl (\<lambda>a b. a + b) 0 (map snd categoryTotals);
          summaries = map (toSummary grandTotal) categoryTotals
      in sort_key (\<lambda>c. - csvalue c) summaries)"

text \<open>Of a transaction and of a dividend, the fields the summaries read.\<close>

datatype TransactionType = buy | sell

record Transaction =
  tdate :: jsstring
  ttype :: TransactionType
  realizedPL :: "real option"
  tcurrency :: Currency

record Dividend =
  ddate :: jsstring
  amount :: real
  dcurrency :: Currency

text \<open>
  \<open>new Date(s).getFullYear()\<close> is a parameter \<open>yearOf\<close> of the model (\<open>None\<close> for an
  invalid date, whose year is \<open>NaN\<close> and equals no year).
\<close>

definition calculateYearRealizedPL ::
  "(jsstring \<Rightarrow> int option) \<Rightarrow> Transaction list \<Rightarrow> int \<Rightarrow> real \<Rightarrow> real" where
  "calculateYearRealizedPL yearOf transactions year usdJpyRate =
     foldl (\<lambda>total t. total +
              (if tcurrency t = USD then convertUsdToJpy (orNum (realizedPL t) 0) usdJpyRate
               else orNum (realizedPL t) 0))
       0 (filter (\<lambda>t. yearOf (tdate t) = Some year \<and> ttype t = sell) transactions)"

definition calculateYearDividends ::
  "(jsstring \<Rightarrow> int option) \<Rightarrow> Dividend list \<Rightarrow> int \<Rightarrow> real \<Rightarrow> real" where
  "calculateYearDividends yearOf dividends year usdJpyRate =
     foldl (\<lambda>total d. total +
              (if dcurrency d = USD then convertUsdToJpy (amount d) usdJpyRate else amount d))
       0 (filter (\<lambda>d. yearOf (ddate d) = Some year) dividends)"

record PortfolioSummary =
  summaryTotalValue :: real
  totalValueJPY :: real
  previousDayValue :: real
  dayChange :: real
  dayChangePercent :: real
  totalUnrealizedPL :: real
  totalUnrealizedPLPercent :: real
  yearRealizedPL :: real
  yearDividends :: real

definition generatePortfolioSummary ::
  "(jsstring \<Rightarrow> int option) \<Rightarrow> int \<Rightarrow> Holding list \<Rightarrow> OtherAsset list \<Rightarrow> Transaction list
   \<Rightarrow> Dividend list \<Rightarrow> PriceData jsmap \<Rightarrow> PriceData jsmap \<Rightarrow> real \<Rightarrow> PortfolioSummary" where
  "generatePortfolioSummary yearOf currentYear holdings otherAssets transactions dividends
       prices previousPrices usdJpyRate =
     (let enrichedHoldings = fst (calculateHoldingsValue holdings prices usdJpyRate);
          holdingsTotal = snd (calculateHoldingsValue holdings prices usdJpyRate);
          otherAssetsTotal = calculateOtherAssetsValue otherAssets usdJpyRate;
          tv = holdingsTotal + otherAssetsTotal;
          previousHoldingsTotal = snd (calculateHoldingsValue holdings previousPrices usdJpyRate);
          pdv = previousHoldingsTotal + otherAssetsTotal;
          dc = tv - pdv;
          dcp = (if pdv > 0 then (dc / pdv) * 100 else 0);
          totalCostBasis =
            foldl (\<lambda>sum h. sum +
                     (if currency h = USD
                      then convertUsdToJpy (avgCost h * quantity h) usdJpyRate
                      else avgCost h * quantity h))
              0 enrichedHoldings;
          tupl = holdingsTotal - totalCostBasis;
          tuplp = (if totalCostBasis > 0 then (tupl / totalCostBasis) * 100 else 0)
      in \<lparr>summaryTotalValue = tv, totalValueJPY = tv, previousDayValue = pdv,
          dayChange = dc, dayChangePercent = dcp, totalUnrealizedPL = tupl,
          totalUnrealizedPLPercent = tuplp,
          yearRealizedPL = calculateYearRealizedPL yearOf transactions currentYear usdJpyRate,
          yearDividends = calculateYearDividends yearOf dividends currentYear usdJpyRate\<rparr>)"

section \<open>Exchange-rate resolution (exchangeRate.ts)\<close>

record ExchangeRateData =
  rate :: real
  date :: "jsstring option"
  source :: jsstring

text \<open>
  What a request to a rate provider produced: \<open>fetch\<close> threw, the response was not ok,
  \<open>response.json()\<close> threw or gave a value whose properties cannot be read, or a payload.
  Of a payload the source reads \<open>success\<close> (for its truth value), \<open>rates?.JPY\<close> and
  \<open>date\<close>.
\<close>

record RatePayload =
  success :: bool
  ratesJPY :: "real option"
  payloadDate :: "jsstring option"

datatype RateOutcome = FetchThrew | NotOk | BadPayload | Payload RatePayload

definition truthyNum :: "real option \<Rightarrow> bool" where
  "truthyNum a = (case a of None \<Rightarrow> False | Some x \<Rightarrow> x \<noteq> 0)"

definition fetchFromAlternativeApi :: "RateOutcome \<Rightarrow> ExchangeRateData option" where
  "fetchFromAlternativeApi secondary =
     (case secondary of
        Payload d \<Rightarrow>
          (if truthyNum (ratesJPY d)
           then Some \<lparr>rate = the (ratesJPY d), date = payloadDate d,
                      source = js ''frankfurter.app''\<rparr>
           else None)
      | _ \<Rightarrow> None)"

definition fetchUsdJpyRate :: "RateOutcome \<Rightarrow> RateOutcome \<Rightarrow> ExchangeRateData option" where
  "fetchUsdJpyRate primary secondary =
     (case primary of
        Payload d \<Rightarrow>
          (if success d \<and> truthyNum (ratesJPY d)
           then Some \<lparr>rate = the (ratesJPY d), date = payloadDate d,
                      source = js ''exchangerate.host''\<rparr>
           else fetchFromAlternativeApi secondary)
      | _ \<Rightarrow> fetchFromAlternativeApi secondary)"

text \<open>
  Step 3 of the portfolio route: the rate starts at \<open>150\<close> with the tag \<open>default\<close> and
  is replaced when \<open>fetchUsdJpyRate\<close> returns an object.
\<close>

definition resolveRate :: "RateOutcome \<Rightarrow> RateOutcome \<Rightarrow> real \<times> jsstring" where
  "resolveRate primary secondary =
     (case fetchUsdJpyRate primary secondary of
        None \<Rightarrow> (150, js ''default'')
      | Some rateData \<Rightarrow> (rate rateData, source rateData))"

section \<open>The portfolio route\<close>

text \<open>
  A value thrown by a collaborator: an \<open>Error\<close> with its message, or anything else.
\<close>

datatype thrown = ErrorObject jsstring | OtherValue

text \<open>
  The collaborators of one request: the store (\<open>getHoldings\<close>, \<open>getLatestPrices\<close>, each
  of which resolves or rejects), the two quote sources, the two rate providers, and the
  clock.
\<close>

record Env =
  getHoldings :: "thrown + Holding list"
  getLatestPrices :: "thrown + PriceData jsmap"
  chartOf :: "jsstring \<Rightarrow> ChartResult option"
  pageOf :: "jsstring \<Rightarrow> jsstring option"
  primaryRate :: RateOutcome
  secondaryRate :: RateOutcome
  nowISO :: jsstring
  nowYear :: int
  yearOfDate :: "jsstring \<Rightarrow> int option"

record Response =
  status :: nat
  rerror :: "jsstring option"
  rholdings :: "Holding list"
  rsummary :: "PortfolioSummary option"
  rcategories :: "CategorySummary list"
  exchangeRate :: real
  exchangeRateSource :: "jsstring option"
  priceSource :: "jsstring option"
  rtotalValueJPY :: "real option"
  rsource :: jsstring
  updatedAt :: jsstring

text \<open>The nine stored fields copied from a row of the store.\<close>

definition toHolding :: "Holding \<Rightarrow> Holding" where
  "toHolding h =
     \<lparr>hid = hid h, symbol = symbol h, name = name h, category = category h,
      quantity = quantity h, avgCost = avgCost h, currency = currency h,
      accountType = accountType h, createdAt = createdAt h,
      currentPrice = None, totalValue = None, unrealizedPL = None,
      unrealizedPLPercent = None\<rparr>"

definition costBasisEntry :: "Holding \<Rightarrow> PriceData" where
  "costBasisEntry h = \<lparr>price = avgCost h, pcurrency = currencyTag (currency h)\<rparr>"

text \<open>\<open>holdings.forEach(h => prices.set(h.symbol, { price: h.avgCost, ... }))\<close>\<close>

definition setAllToCost :: "Holding list \<Rightarrow> PriceData jsmap \<Rightarrow> PriceData jsmap" where
  "setAllToCost holdings prices =
     foldl (\<lambda>m h. mset_entry (symbol h) (costBasisEntry h) m) prices holdings"

subsection \<open>The route of \<open>src/app/api/portfolio/route.ts\<close>\<close>

text \<open>
  Step 2: the live quotes, and in the \<open>catch\<close> the cached prices, and in its \<open>catch\<close>
  the cost basis. The argument \<open>live\<close> is what awaiting \<open>fetchMultipleStockPrices\<close> gave.
\<close>

definition quoteEntry :: "StockQuote \<Rightarrow> PriceData" where
  "quoteEntry quote = \<lparr>price = qprice quote, pcurrency = currencyTag (qcurrency quote)\<rparr>"

definition priceTiers ::
  "thrown + StockQuote jsmap \<Rightarrow> thrown + PriceData jsmap \<Rightarrow> Holding list
   \<Rightarrow> PriceData jsmap \<times> jsstring" where
  "priceTiers live cached holdings =
     (case live of
        Inr stockQuotes \<Rightarrow>
          (foldl (\<lambda>m (symb, quote). mset_entry symb (quoteEntry quote) m) [] stockQuotes,
           js ''yahoo_finance'')
      | Inl priceError \<Rightarrow>
          (case cached of
             Inr latest \<Rightarrow> (latest, js ''google_sheets_cache'')
           | Inl _ \<Rightarrow> (setAllToCost holdings [], js ''avg_cost_fallback'')))"

text \<open>Step 6: every price of the map, scaled by \<open>0.998\<close>.\<close>

definition estimatedPreviousPrices :: "PriceData jsmap \<Rightarrow> PriceData jsmap" where
  "estimatedPreviousPrices prices =
     foldl (\<lambda>m (symb, priceData).
              mset_entry symb \<lparr>price = price priceData * 0.998,
                               pcurrency = pcurrency priceData\<rparr> m)
       [] prices"

text \<open>Step 8: the four calculated fields, computed again for the response.\<close>

definition withPrices :: "PriceData jsmap \<Rightarrow> Holding \<Rightarrow> Holding" where
  "withPrices prices h =
     (let p = orNum (map_option price (mget prices (symbol h))) (avgCost h)
      in h\<lparr>currentPrice := Some p,
           totalValue := Some (p * quantity h),
           unrealizedPL := Some ((p - avgCost h) * quantity h),
           unrealizedPLPercent :=
             Some (if avgCost h > 0 then ((p - avgCost h) / avgCost h) * 100 else 0)\<rparr>)"

definition errorMessage :: "thrown \<Rightarrow> jsstring" where
  "errorMessage e = (case e of ErrorObject msg \<Rightarrow> msg | OtherValue \<Rightarrow> js ''Unknown error'')"

definition errorResponse :: "thrown \<Rightarrow> jsstring \<Rightarrow> Response" where
  "errorResponse e t =
     \<lparr>status = 500, rerror = Some (errorMessage e), rholdings = [], rsummary = None,
      rcategories = [], exchangeRate = 150, exchangeRateSource = None, priceSource = None,
      rtotalValueJPY = None, rsource = js ''error'', updatedAt = t\<rparr>"

definition emptyResponse :: "jsstring \<Rightarrow> Response" where
  "emptyResponse t =
     \<lparr>status = 200, rerror = None, rholdings = [], rsummary = None, rcategories = [],
      exchangeRate = 150, exchangeRateSource = None, priceSource = None,
      rtotalValueJPY = None, rsource = js ''empty'', updatedAt = t\<rparr>"

text \<open>
  \<open>GET\<close>. Inside the outer \<open>try\<close> only \<open>getHoldings\<close> can reject without being caught
  by an inner \<open>try\<close>: the price fetchers return \<open>null\<close> on every failure of theirs, the
  cached prices and the rate are read inside their own \<open>try\<close>, and the calculations are
  total.
\<close>

definition GET :: "Env \<Rightarrow> Response" where
  "GET env =
     (case getHoldings env of
        Inl e \<Rightarrow> errorResponse e (nowISO env)
      | Inr rawHoldings \<Rightarrow>
          if rawHoldings = [] then emptyResponse (nowISO env)
          else
            (let holdings = map toHolding rawHoldings;
                 symbols = map symbol holdings;
                 tiers = priceTiers
                           (Inr (fetchMultipleStockPrices (chartOf env) (pageOf env) symbols))
                           (getLatestPrices env) holdings;
                 prices = fst tiers;
                 resolved = resolveRate (primaryRate env) (secondaryRate env);
                 usdJpyRate = fst resolved;
                 valued = calculateHoldingsValue holdings prices usdJpyRate;
                 categories = generateCategorySummary holdings [] prices usdJpyRate;
                 previousPrices = estimatedPreviousPrices prices;
                 summary = generatePortfolioSummary (yearOfDate env) (nowYear env)
                             holdings [] [] [] prices previousPrices usdJpyRate;
                 holdingsWithPrices = map (withPrices prices) (fst valued)
             in \<lparr>status = 200, rerror = None, rholdings = holdingsWithPrices,
                  rsummary = Some summary, rcategories = categories,
                  exchangeRate = usdJpyRate, exchangeRateSource = Some (snd resolved),
                  priceSource = Some (snd tiers), rtotalValueJPY = Some (snd valued),
                  rsource = js ''live'', updatedAt = nowISO env\<rparr>))"

subsection \<open>The route with symbol normalisation and fund codes\<close>










subsection \<open>The route with the day change of each holding\<close>

text \<open>
  Step 6: the previous price of a symbol is its previous close when the map
  \<open>previousCloseMap\<close> has a truthy one, and its current price otherwise.
\<close>

definition prevCloseOf :: "real option jsmap \<Rightarrow> jsstring \<Rightarrow> real option" where
  "prevCloseOf previousCloseMap symb =
     (case mget previousCloseMap symb of None \<Rightarrow> None | Some v \<Rightarrow> v)"

definition previousPricesOf :: "PriceData jsmap \<Rightarrow> real option jsmap \<Rightarrow> PriceData jsmap" where
  "previousPricesOf prices previousCloseMap =
     foldl (\<lambda>m (symb, priceData).
              mset_entry symb
                \<lparr>price = orNum (prevCloseOf previousCloseMap symb) (price priceData),
                 pcurrency = pcurrency priceData\<rparr> m)
       [] prices"

record HoldingWithChange = Holding +
  holdingDayChange :: real
  holdingDayChangePercent :: real

text \<open>Step 8 of that route: the calculated fields and the day change of one holding.\<close>

definition withDayChange :: "PriceData jsmap \<Rightarrow> real option jsmap \<Rightarrow> Holding \<Rightarrow> HoldingWithChange" where
  "withDayChange prices previousCloseMap h =
     (let cp = orNum (map_option price (mget prices (symbol h))) (avgCost h);
          prevClose = orNum (prevCloseOf previousCloseMap (symbol h)) cp;
          dc = (cp - prevClose) * quantity h;
          dcp = (if prevClose > 0 then ((cp - prevClose) / prevClose) * 100 else 0)
      in Holding.extend
           (h\<lparr>currentPrice := Some cp,
              totalValue := Some (cp * quantity h),
              unrealizedPL := Some ((cp - avgCost h) * quantity h),
              unrealizedPLPercent :=
                Some (if avgCost h > 0 then ((cp - avgCost h) / avgCost h) * 100 else 0)\<rparr>)
           (HoldingWithChange.fields dc dcp))"

section \<open>Example data\<close>

text \<open>Two holdings of the sample portfolio.\<close>

definition toyota :: Holding where
  "toyota = \<lparr>hid = js ''1'', symbol = js ''7203.T'', name = js ''Toyota'',
     category = domestic_stock, quantity = 100, avgCost = 2400, currency = JPY,
     accountType = specific, createdAt = js ''2024-01-15'', currentPrice = None,
     totalValue = None, unrealizedPL = None, unrealizedPLPercent = None\<rparr>"

definition apple :: Holding where
  "apple = \<lparr>hid = js ''2'', symbol = js ''AAPL'', name = js ''Apple Inc.'',
     category = us_stock, quantity = 50, avgCost = 150, currency = USD,
     accountType = nisa, createdAt = js ''2024-02-01'', currentPrice = None,
     totalValue = None, unrealizedPL = None, unrealizedPLPercent = None\<rparr>"

text \<open>
  The first holding with nothing left of it (a row of the sheet whose quantity is \<open>0\<close>),
  and a request during which the chart API quotes it at 2856 yen.
\<close>

definition soldOut :: Holding where
  "soldOut = toyota\<lparr>quantity := 0\<rparr>"

definition soldOutEnv :: Env where
  "soldOutEnv =
     \<lparr>getHoldings = Inr [soldOut], getLatestPrices = Inr [],
      chartOf = (\<lambda>symb. if symb = js ''7203.T''
                  then Some \<lparr>meta = Some \<lparr>regularMarketPrice = Some 2856,
                                           metaPreviousClose = Some 2840,
                                           shortName = Some (js ''TOYOTA MOTOR CORP''),
                                           longName = None,
                                           metaCurrency = Some (js ''JPY'')\<rparr>,
                              close = None\<rparr>
                  else None),
      pageOf = (\<lambda>code. None),
      primaryRate = FetchThrew, secondaryRate = FetchThrew,
      nowISO = js ''2025-01-06T00:00:00.000Z'', nowYear = 2025,
      yearOfDate = (\<lambda>d. None)\<rparr>"

text \<open>
  A request during which the store cannot be read at all, and one during which the
  store gives a single holding while every quote source and rate provider fails and
  the cached price sheet is empty.
\<close>

definition storeDownEnv :: Env where
  "storeDownEnv =
     \<lparr>getHoldings = Inl (ErrorObject (js ''GOOGLE_CREDENTIALS environment variable is not set'')),
      getLatestPrices = Inl (ErrorObject (js ''GOOGLE_CREDENTIALS environment variable is not set'')),
      chartOf = (\<lambda>symb. None), pageOf = (\<lambda>code. None),
      primaryRate = FetchThrew, secondaryRate = FetchThrew,
      nowISO = js ''2025-01-06T00:00:00.000Z'', nowYear = 2025,
      yearOfDate = (\<lambda>d. None)\<rparr>"

definition offlineEnv :: Env where
  "offlineEnv =
     \<lparr>getHoldings = Inr [apple], getLatestPrices = Inr [],
      chartOf = (\<lambda>symb. None), pageOf = (\<lambda>code. None),
      primaryRate = FetchThrew, secondaryRate = FetchThrew,
      nowISO = js ''2025-01-06T00:00:00.000Z'', nowYear = 2025,
      yearOfDate = (\<lambda>d. None)\<rparr>"

text \<open>
  A request during which the chart API gives a price for the one holding, but neither a
  previous close nor a list of closes.
\<close>

definition noPreviousCloseEnv :: Env where
  "noPreviousCloseEnv =
     \<lparr>getHoldings = Inr [apple], getLatestPrices = Inr [],
      chartOf = (\<lambda>symb. if symb = js ''AAPL''
                  then Some \<lparr>meta = Some \<lparr>regularMarketPrice = Some 182.5,
                                           metaPreviousClose = None,
                                           shortName = Some (js ''Apple Inc.''),
                                           longName = None,
                                           metaCurrency = Some (js ''USD'')\<rparr>,
                              close = None\<rparr>
                  else None),
      pageOf = (\<lambda>code. None),
      primaryRate = FetchThrew, secondaryRate = FetchThrew,
      nowISO = js ''2025-01-06T00:00:00.000Z'', nowYear = 2025,
      yearOfDate = (\<lambda>d. None)\<rparr>"

text \<open>A page that consists of the labelled, comma-grouped, yen-suffixed value.\<close>

definition samplePage :: jsstring where
  "samplePage = kijunKagaku @ js '' 12,345 '' @ [yen]"








section \<open>Notions of the specification\<close>


text \<open>
  What one extraction strategy yields, in the words of the specification: the number
  parsed from the matched text once the commas are removed, if it is strictly positive.
\<close>

definition navCandidate :: "jsstring option \<Rightarrow> real option" where
  "navCandidate m =
     (case m of
        None \<Rightarrow> None
      | Some g \<Rightarrow>
          (case parseFloat (stripCommas g) of
             None \<Rightarrow> None
           | Some v \<Rightarrow> if 0 < v then Some v else None))"

section \<open>Properties\<close>

subsection \<open>Maps\<close>

lemma mget_mset_entry: "mget (mset_entry k v m) k' = (if k' = k then Some v else mget m k')"
  by (simp add: mget_def mset_entry_def update_conv')

lemma mget_delete: "mget (AList.delete k m) k' = (if k' = k then None else mget m k')"
  by (simp add: mget_def delete_conv')


lemma mget_foldl_entries:
  "mget (foldl (\<lambda>m (k, v). mset_entry k (g k v) m) acc xs) s
     = (case map_of (rev xs) s of None \<Rightarrow> mget acc s | Some v \<Rightarrow> Some (g s v))"
proof (induction xs rule: rev_induct)
  case Nil
  then show ?case by simp
next
  case (snoc x xs)
  then show ?case
    by (cases x) (simp add: mget_mset_entry)
qed

lemma map_of_rev_distinct:
  "distinct (map fst xs) \<Longrightarrow> map_of (rev xs) = map_of xs"
  by (rule map_of_inject_set [THEN iffD2]) (simp_all add: distinct_rev rev_map [symmetric])


subsection \<open>Valuation of a holding\<close>

lemma enrichHolding_fields:
  "currentPrice (enrichHolding prices h) = Some (holdingCurrentPrice prices h)"
  "totalValue (enrichHolding prices h) = Some (holdingCurrentPrice prices h * quantity h)"
  "unrealizedPL (enrichHolding prices h) =
     Some (holdingCurrentPrice prices h * quantity h - avgCost h * quantity h)"
  "unrealizedPLPercent (enrichHolding prices h) =
     Some (if avgCost h * quantity h > 0
           then ((holdingCurrentPrice prices h * quantity h - avgCost h * quantity h)
                 / (avgCost h * quantity h)) * 100 else 0)"
  by (simp_all add: enrichHolding_def Let_def)

text \<open>
  Step 8 of the route computes the four fields again, with the percentage guarded by
  \<open>avgCost > 0\<close>; for a holding of positive quantity the result is the one of the
  valuation.
\<close>

lemma withPrices_enrichHolding:
  assumes "0 < quantity h"
  shows "withPrices prices (enrichHolding prices h) = enrichHolding prices h"
proof -
  have q: "quantity h \<noteq> 0" using assms by simp
  have g: "(0 < avgCost h * quantity h) = (0 < avgCost h)"
    using assms by (simp add: zero_less_mult_iff)
  have d: "(holdingCurrentPrice prices h * quantity h - avgCost h * quantity h)
             / (avgCost h * quantity h)
           = (holdingCurrentPrice prices h - avgCost h) / avgCost h"
    using q by (simp add: left_diff_distrib [symmetric])
  show ?thesis
    by (simp add: withPrices_def enrichHolding_def Let_def holdingCurrentPrice_def [symmetric]
        g d left_diff_distrib)
qed

lemma withPrices_values:
  "currentPrice (withPrices prices h) = Some (holdingCurrentPrice prices h)"
  "totalValue (withPrices prices h) = Some (holdingCurrentPrice prices h * quantity h)"
  "unrealizedPL (withPrices prices h)
     = Some ((holdingCurrentPrice prices h - avgCost h) * quantity h)"
  "unrealizedPLPercent (withPrices prices h)
     = Some (if avgCost h > 0
             then ((holdingCurrentPrice prices h - avgCost h) / avgCost h) * 100 else 0)"
  by (simp_all add: withPrices_def Let_def holdingCurrentPrice_def)

lemma enrichHolding_keeps:
  "symbol (enrichHolding prices h) = symbol h"
  "avgCost (enrichHolding prices h) = avgCost h"
  "quantity (enrichHolding prices h) = quantity h"
  by (simp_all add: enrichHolding_def Let_def)

lemma holdingCurrentPrice_enrich:
  "holdingCurrentPrice prices (enrichHolding prices' h) = holdingCurrentPrice prices h"
  by (simp add: holdingCurrentPrice_def enrichHolding_keeps)

lemma holdingCurrentPrice_cases:
  "holdingCurrentPrice prices h
     = (case mget prices (symbol h) of
          None \<Rightarrow> avgCost h
        | Some pd \<Rightarrow> if price pd = 0 then avgCost h else price pd)"
  by (simp add: holdingCurrentPrice_def orNum_def split: option.splits)

text \<open>The holdings of the response are those of the valuation, passed through step 8.\<close>

lemma GET_holdings:
  assumes "getHoldings env = Inr raw" and "raw \<noteq> []"
  shows "rholdings (GET env)
     = map (withPrices
              (fst (priceTiers
                 (Inr (fetchMultipleStockPrices (chartOf env) (pageOf env)
                         (map symbol (map toHolding raw))))
                 (getLatestPrices env) (map toHolding raw))))
         (fst (calculateHoldingsValue (map toHolding raw)
                 (fst (priceTiers
                    (Inr (fetchMultipleStockPrices (chartOf env) (pageOf env)
                            (map symbol (map toHolding raw))))
                    (getLatestPrices env) (map toHolding raw)))
                 (fst (resolveRate (primaryRate env) (secondaryRate env)))))"
  using assms by (simp add: GET_def Let_def)

lemma soldOut_quote:
  "fetchStockPriceV8 (chartOf soldOutEnv) (js ''7203.T'')
     = Some \<lparr>qsymbol = js ''7203.T'', qname = js ''TOYOTA MOTOR CORP'', qprice = 2856,
             previousClose = Some 2840, change = Some 16, changePercent = 16 / 2840 * 100,
             qcurrency = JPY\<rparr>"
  by (simp add: fetchStockPriceV8_def soldOutEnv_def orNum_def orStr_def closeAt_def
      Let_def js_def)

lemma soldOut_not_fund: "\<not> isMutualFundCode (js ''7203.T'')"
  by (simp add: isMutualFundCode_def matchAnchored_def js_def)

lemma soldOut_prices:
  "fst (priceTiers (Inr (fetchMultipleStockPrices (chartOf soldOutEnv) (pageOf soldOutEnv)
          [symbol (toHolding soldOut)])) (getLatestPrices soldOutEnv) [toHolding soldOut])
     = [(js ''7203.T'', \<lparr>price = 2856, pcurrency = js ''JPY''\<rparr>)]"
proof -
  have s: "[symbol (toHolding soldOut)] = [js ''7203.T'']"
    by (simp add: toHolding_def soldOut_def toyota_def)
  have l: "fetchMultipleStockPrices (chartOf soldOutEnv) (pageOf soldOutEnv) [js ''7203.T'']
      = [(js ''7203.T'', \<lparr>qsymbol = js ''7203.T'', qname = js ''TOYOTA MOTOR CORP'',
            qprice = 2856, previousClose = Some 2840, change = Some 16,
            changePercent = 16 / 2840 * 100, qcurrency = JPY\<rparr>)]"
    by (simp add: fetchMultipleStockPrices_def soldOut_not_fund Let_def fetchBatches.simps
        storeQuotes_def soldOut_quote mset_entry_def)
  show ?thesis
    by (simp only: s l) (simp add: priceTiers_def quoteEntry_def mset_entry_def currencyTag_def)
qed

lemma soldOut_response:
  "rholdings (GET soldOutEnv)
     = [soldOut\<lparr>currentPrice := Some 2856, totalValue := Some 0, unrealizedPL := Some 0,
                unrealizedPLPercent := Some 19\<rparr>]"
proof -
  have h: "getHoldings soldOutEnv = Inr [soldOut]"
    by (simp add: soldOutEnv_def)
  have "rholdings (GET soldOutEnv)
     = map (withPrices [(js ''7203.T'', \<lparr>price = 2856, pcurrency = js ''JPY''\<rparr>)])
         (fst (calculateHoldingsValue [toHolding soldOut]
                 [(js ''7203.T'', \<lparr>price = 2856, pcurrency = js ''JPY''\<rparr>)]
                 (fst (resolveRate (primaryRate soldOutEnv) (secondaryRate soldOutEnv)))))"
    using GET_holdings [OF h] by (simp add: soldOut_prices)
  then show ?thesis
    by (simp add: calculateHoldingsValue_def enrichHolding_def withPrices_def
        holdingCurrentPrice_def orNum_def mget_def toHolding_def soldOut_def toyota_def Let_def)
qed

text \<open>
  C1, as the code has it. With the numbers of the code read as exact reals, every holding
  that \<open>calculateHoldingsValue\<close> returns carries a current price \<open>cp\<close> (the quote's price,
  or the average cost when the quote is missing or \<open>0\<close>), the total value
  \<open>cp * quantity\<close>, the unrealized profit \<open>cp * quantity - avgCost * quantity\<close>, which is
  \<open>(cp - avgCost) * quantity\<close>, and as percentage that profit over \<open>avgCost * quantity\<close>
  times \<open>100\<close> when \<open>avgCost * quantity > 0\<close>, and \<open>0\<close> otherwise. The holdings of the
  response are these holdings passed through step 8 of the route, which keeps the current
  price, the total value and the profit and replaces the percentage by
  \<open>(cp - avgCost) / avgCost * 100\<close> when \<open>avgCost > 0\<close>, and \<open>0\<close> otherwise: the same number
  when the quantity is positive. For 100 units bought at 2400 yen and quoted at 2856 the
  values are 285600, 45600 and 19, from the valuation and in the response of the route.
\<close>

theorem valuation_formulas:
  "i < length holdings \<Longrightarrow>
   (let cp = (case mget prices (symbol (holdings ! i)) of
                None \<Rightarrow> avgCost (holdings ! i)
              | Some pd \<Rightarrow> if price pd = 0 then avgCost (holdings ! i) else price pd)
    in currentPrice (fst (calculateHoldingsValue holdings prices r) ! i) = Some cp
      \<and> totalValue (fst (calculateHoldingsValue holdings prices r) ! i)
          = Some (cp * quantity (holdings ! i))
      \<and> unrealizedPL (fst (calculateHoldingsValue holdings prices r) ! i)
          = Some (cp * quantity (holdings ! i)
                  - avgCost (holdings ! i) * quantity (holdings ! i))
      \<and> cp * quantity (holdings ! i) - avgCost (holdings ! i) * quantity (holdings ! i)
          = (cp - avgCost (holdings ! i)) * quantity (holdings ! i)
      \<and> unrealizedPLPercent (fst (calculateHoldingsValue holdings prices r) ! i)
          = Some (if avgCost (holdings ! i) * quantity (holdings ! i) > 0
                  then ((cp - avgCost (holdings ! i)) * quantity (holdings ! i))
                       / (avgCost (holdings ! i) * quantity (holdings ! i)) * 100
                  else 0)
      \<and> currentPrice
            (map (withPrices prices) (fst (calculateHoldingsValue holdings prices r)) ! i)
          = Some cp
      \<and> totalValue
            (map (withPrices prices) (fst (calculateHoldingsValue holdings prices r)) ! i)
          = Some (cp * quantity (holdings ! i))
      \<and> unrealizedPL
            (map (withPrices prices) (fst (calculateHoldingsValue holdings prices r)) ! i)
          = Some ((cp - avgCost (holdings ! i)) * quantity (holdings ! i))
      \<and> unrealizedPLPercent
            (map (withPrices prices) (fst (calculateHoldingsValue holdings prices r)) ! i)
          = Some (if avgCost (holdings ! i) > 0
                  then ((cp - avgCost (holdings ! i)) / avgCost (holdings ! i)) * 100
                  else 0)
      \<and> (0 < quantity (holdings ! i) \<longrightarrow>
           unrealizedPLPercent
               (map (withPrices prices) (fst (calculateHoldingsValue holdings prices r)) ! i)
             = unrealizedPLPercent (fst (calculateHoldingsValue holdings prices r) ! i)))
   \<and> (getHoldings env = Inr raw \<and> raw \<noteq> [] \<longrightarrow>
        rholdings (GET env)
          = map (withPrices
                   (fst (priceTiers
                      (Inr (fetchMultipleStockPrices (chartOf env) (pageOf env)
                              (map symbol (map toHolding raw))))
                      (getLatestPrices env) (map toHolding raw))))
              (fst (calculateHoldingsValue (map toHolding raw)
                      (fst (priceTiers
                         (Inr (fetchMultipleStockPrices (chartOf env) (pageOf env)
                                 (map symbol (map toHolding raw))))
                         (getLatestPrices env) (map toHolding raw)))
                      (fst (resolveRate (primaryRate env) (secondaryRate env))))))
   \<and> fst (calculateHoldingsValue [toyota]
             [(js ''7203.T'', \<lparr>price = 2856, pcurrency = js ''JPY''\<rparr>)] r)
       = [toyota\<lparr>currentPrice := Some 2856, totalValue := Some 285600,
                  unrealizedPL := Some 45600, unrealizedPLPercent := Some 19\<rparr>]
   \<and> map (withPrices [(js ''7203.T'', \<lparr>price = 2856, pcurrency = js ''JPY''\<rparr>)])
         (fst (calculateHoldingsValue [toyota]
                 [(js ''7203.T'', \<lparr>price = 2856, pcurrency = js ''JPY''\<rparr>)] r))
       = [toyota\<lparr>currentPrice := Some 2856, totalValue := Some 285600,
                  unrealizedPL := Some 45600, unrealizedPLPercent := Some 19\<rparr>]"
proof (intro conjI impI)
  assume i: "i < length holdings"
  let ?h = "holdings ! i"
  let ?cp = "holdingCurrentPrice prices ?h"
  have e: "fst (calculateHoldingsValue holdings prices r) ! i = enrichHolding prices ?h"
    using i by (simp add: calculateHoldingsValue_def)
  have w: "map (withPrices prices) (fst (calculateHoldingsValue holdings prices r)) ! i
      = withPrices prices (enrichHolding prices ?h)"
    using i by (simp add: calculateHoldingsValue_def)
  have same: "withPrices prices (enrichHolding prices ?h) = enrichHolding prices ?h"
    if "0 < quantity ?h"
    using that by (rule withPrices_enrichHolding)
  show "let cp = (case mget prices (symbol (holdings ! i)) of
                None \<Rightarrow> avgCost (holdings ! i)
              | Some pd \<Rightarrow> if price pd = 0 then avgCost (holdings ! i) else price pd)
    in currentPrice (fst (calculateHoldingsValue holdings prices r) ! i) = Some cp
      \<and> totalValue (fst (calculateHoldingsValue holdings prices r) ! i)
          = Some (cp * quantity (holdings ! i))
      \<and> unrealizedPL (fst (calculateHoldingsValue holdings prices r) ! i)
          = Some (cp * quantity (holdings ! i)
                  - avgCost (holdings ! i) * quantity (holdings ! i))
      \<and> cp * quantity (holdings ! i) - avgCost (holdings ! i) * quantity (holdings ! i)
          = (cp - avgCost (holdings ! i)) * quantity (holdings ! i)
      \<and> unrealizedPLPercent (fst (calculateHoldingsValue holdings prices r) ! i)
          = Some (if avgCost (holdings ! i) * quantity (holdings ! i) > 0
                  then ((cp - avgCost (holdings ! i)) * quantity (holdings ! i))
                       / (avgCost (holdings ! i) * quantity (holdings ! i)) * 100
                  else 0)
      \<and> currentPrice
            (map (withPrices prices) (fst (calculateHoldingsValue holdings prices r)) ! i)
          = Some cp
      \<and> totalValue
            (map (withPrices prices) (fst (calculateHoldingsValue holdings prices r)) ! i)
          = Some (cp * quantity (holdings ! i))
      \<and> unrealizedPL
            (map (withPrices prices) (fst (calculateHoldingsValue holdings prices r)) ! i)
          = Some ((cp - avgCost (holdings ! i)) * quantity (holdings ! i))
      \<and> unrealizedPLPercent
            (map (withPrices prices) (fst (calculateHoldingsValue holdings prices r)) ! i)
          = Some (if avgCost (holdings ! i) > 0
                  then ((cp - avgCost (holdings ! i)) / avgCost (holdings ! i)) * 100
                  else 0)
      \<and> (0 < quantity (holdings ! i) \<longrightarrow>
           unrealizedPLPercent
               (map (withPrices prices) (fst (calculateHoldingsValue holdings prices r)) ! i)
             = unrealizedPLPercent (fst (calculateHoldingsValue holdings prices r) ! i))"
    unfolding Let_def holdingCurrentPrice_cases [symmetric]
    apply (intro conjI impI)
             apply (simp add: e enrichHolding_fields)
            apply (simp add: e enrichHolding_fields)
           apply (simp add: e enrichHolding_fields)
          apply (simp add: left_diff_distrib)
         apply (simp add: e enrichHolding_fields left_diff_distrib)
        apply (simp add: w withPrices_values holdingCurrentPrice_enrich enrichHolding_keeps)
       apply (simp add: w withPrices_values holdingCurrentPrice_enrich enrichHolding_keeps)
      apply (simp add: w withPrices_values holdingCurrentPrice_enrich enrichHolding_keeps)
     apply (simp add: w withPrices_values holdingCurrentPrice_enrich enrichHolding_keeps)
    apply (simp add: w e same)
    done
next
  assume "getHoldings env = Inr raw \<and> raw \<noteq> []"
  then have "getHoldings env = Inr raw" and "raw \<noteq> []" by simp_all
  then show "rholdings (GET env)
          = map (withPrices
                   (fst (priceTiers
                      (Inr (fetchMultipleStockPrices (chartOf env) (pageOf env)
                              (map symbol (map toHolding raw))))
                      (getLatestPrices env) (map toHolding raw))))
              (fst (calculateHoldingsValue (map toHolding raw)
                      (fst (priceTiers
                         (Inr (fetchMultipleStockPrices (chartOf env) (pageOf env)
                                 (map symbol (map toHolding raw))))
                         (getLatestPrices env) (map toHolding raw)))
                      (fst (resolveRate (primaryRate env) (secondaryRate env)))))"
    by (rule GET_holdings)
next
  show "fst (calculateHoldingsValue [toyota]
             [(js ''7203.T'', \<lparr>price = 2856, pcurrency = js ''JPY''\<rparr>)] r)
       = [toyota\<lparr>currentPrice := Some 2856, totalValue := Some 285600,
                  unrealizedPL := Some 45600, unrealizedPLPercent := Some 19\<rparr>]"
    by (simp add: calculateHoldingsValue_def enrichHolding_def holdingCurrentPrice_def
        orNum_def mget_def toyota_def Let_def)
next
  show "map (withPrices [(js ''7203.T'', \<lparr>price = 2856, pcurrency = js ''JPY''\<rparr>)])
         (fst (calculateHoldingsValue [toyota]
                 [(js ''7203.T'', \<lparr>price = 2856, pcurrency = js ''JPY''\<rparr>)] r))
       = [toyota\<lparr>currentPrice := Some 2856, totalValue := Some 285600,
                  unrealizedPL := Some 45600, unrealizedPLPercent := Some 19\<rparr>]"
    by (simp add: calculateHoldingsValue_def enrichHolding_def holdingCurrentPrice_def
        withPrices_def orNum_def mget_def toyota_def Let_def)
qed

theorem valuation_formulas_witness:
  "(1::nat) < length [toyota, apple]
   \<and> 0 < quantity ([toyota, apple] ! 1)
   \<and> getHoldings soldOutEnv = Inr [soldOut] \<and> [soldOut] \<noteq> []
   \<and> totalValue (fst (calculateHoldingsValue [toyota, apple]
        [(js ''AAPL'', \<lparr>price = 182.5, pcurrency = js ''USD''\<rparr>)] 150) ! 1) = Some 9125
   \<and> unrealizedPL (fst (calculateHoldingsValue [toyota, apple]
        [(js ''AAPL'', \<lparr>price = 182.5, pcurrency = js ''USD''\<rparr>)] 150) ! 1) = Some 1625
   \<and> unrealizedPLPercent (fst (calculateHoldingsValue [toyota, apple]
        [(js ''AAPL'', \<lparr>price = 182.5, pcurrency = js ''USD''\<rparr>)] 150) ! 1)
       = Some (65 / 3)
   \<and> unrealizedPLPercent
        (map (withPrices [(js ''AAPL'', \<lparr>price = 182.5, pcurrency = js ''USD''\<rparr>)])
           (fst (calculateHoldingsValue [toyota, apple]
              [(js ''AAPL'', \<lparr>price = 182.5, pcurrency = js ''USD''\<rparr>)] 150)) ! 1)
       = Some (65 / 3)
   \<and> map totalValue (rholdings (GET soldOutEnv)) = [Some 0]"
proof -
  have h: "(1::nat) < length [toyota, apple]" by simp
  have q: "0 < quantity ([toyota, apple] ! 1)" by (simp add: apple_def)
  have g: "getHoldings soldOutEnv = Inr [soldOut]" by (simp add: soldOutEnv_def)
  have t: "map totalValue
      (map (withPrices [(js ''7203.T'', \<lparr>price = 2856, pcurrency = js ''JPY''\<rparr>)])
         (fst (calculateHoldingsValue [toHolding soldOut]
                 [(js ''7203.T'', \<lparr>price = 2856, pcurrency = js ''JPY''\<rparr>)] x))) = [Some 0]"
    for x
    by (simp add: calculateHoldingsValue_def enrichHolding_def withPrices_def
        toHolding_def soldOut_def toyota_def Let_def)
  show ?thesis
    using h q g t
      valuation_formulas [OF h,
        of "[(js ''AAPL'', \<lparr>price = 182.5, pcurrency = js ''USD''\<rparr>)]" 150
          soldOutEnv "[soldOut]"]
    by (simp add: Let_def mget_def apple_def soldOut_prices)
qed

text \<open>
  The percentage as the specification states it is \<open>0\<close> whenever \<open>avgCost * quantity\<close> is
  not positive. For a holding of quantity \<open>0\<close> quoted at 2856 the valuation gives \<open>0\<close>, and
  the response of the route carries 19.
\<close>

theorem response_percent_at_zero_quantity:
  "map quantity (rholdings (GET soldOutEnv)) = [0]
   \<and> map avgCost (rholdings (GET soldOutEnv)) = [2400]
   \<and> map currentPrice (rholdings (GET soldOutEnv)) = [Some 2856]
   \<and> map unrealizedPL (rholdings (GET soldOutEnv)) = [Some 0]
   \<and> map unrealizedPLPercent (rholdings (GET soldOutEnv)) = [Some 19]
   \<and> map unrealizedPLPercent
       (fst (calculateHoldingsValue [soldOut]
               [(js ''7203.T'', \<lparr>price = 2856, pcurrency = js ''JPY''\<rparr>)] 150)) = [Some 0]"
  by (simp add: soldOut_response soldOut_def toyota_def calculateHoldingsValue_def
      enrichHolding_def holdingCurrentPrice_def orNum_def mget_def Let_def)

text \<open>
  C10. A quote whose price is \<open>0\<close> values the holdings exactly as the map without an
  entry for that symbol does: the current price of the holding is its average cost. The
  same holds for the fields that step 8 of the route computes.
\<close>

theorem zero_price_as_missing:
  "calculateHoldingsValue holdings (mset_entry s \<lparr>price = 0, pcurrency = c\<rparr> prices) r
     = calculateHoldingsValue holdings (AList.delete s prices) r
   \<and> (symbol h = s \<longrightarrow>
        currentPrice (enrichHolding (mset_entry s \<lparr>price = 0, pcurrency = c\<rparr> prices) h)
          = Some (avgCost h))
   \<and> withPrices (mset_entry s \<lparr>price = 0, pcurrency = c\<rparr> prices) h
       = withPrices (AList.delete s prices) h"
proof -
  have cp: "holdingCurrentPrice (mset_entry s \<lparr>price = 0, pcurrency = c\<rparr> prices) h
        = holdingCurrentPrice (AList.delete s prices) h" for h
    by (simp add: holdingCurrentPrice_def mget_mset_entry mget_delete orNum_def)
  have en: "enrichHolding (mset_entry s \<lparr>price = 0, pcurrency = c\<rparr> prices)
        = enrichHolding (AList.delete s prices)"
    by (rule ext) (simp add: enrichHolding_def cp)
  have vj: "holdingValueJPY (mset_entry s \<lparr>price = 0, pcurrency = c\<rparr> prices) r
        = holdingValueJPY (AList.delete s prices) r"
    by (rule ext) (simp add: holdingValueJPY_def cp)
  have "symbol h = s \<Longrightarrow> holdingCurrentPrice (AList.delete s prices) h = avgCost h"
    by (simp add: holdingCurrentPrice_def mget_delete orNum_def)
  moreover have "withPrices (mset_entry s \<lparr>price = 0, pcurrency = c\<rparr> prices) h
       = withPrices (AList.delete s prices) h"
    using cp [of h] by (simp add: withPrices_def holdingCurrentPrice_def)
  ultimately show ?thesis
    by (simp add: calculateHoldingsValue_def en vj enrichHolding_fields)
qed

theorem zero_price_as_missing_witness:
  "symbol toyota = js ''7203.T''
   \<and> currentPrice (enrichHolding
        (mset_entry (js ''7203.T'') \<lparr>price = 0, pcurrency = js ''JPY''\<rparr>
           [(js ''7203.T'', \<lparr>price = 2856, pcurrency = js ''JPY''\<rparr>)]) toyota) = Some 2400"
proof -
  have h: "symbol toyota = js ''7203.T''" by (simp add: toyota_def)
  show ?thesis
    using h zero_price_as_missing [of "[]" "js ''7203.T''" "js ''JPY''"
        "[(js ''7203.T'', \<lparr>price = 2856, pcurrency = js ''JPY''\<rparr>)]" 1 toyota]
    by (simp add: toyota_def)
qed

subsection \<open>Exchange rate\<close>

text \<open>
  C5. When the primary provider fails (the request throws, the response is not ok, the
  payload cannot be read, or the payload has no usable JPY rate or no success flag), the
  result is the secondary provider's: its rate with the tag \<open>frankfurter.app\<close> when it
  has a usable JPY rate, and otherwise nothing, which the route resolves to the rate 150
  with the tag \<open>default\<close>. A primary payload with the success flag and a JPY rate is
  returned with the primary's tag.
\<close>

theorem exchange_rate_chain:
  "(primary = FetchThrew \<or> primary = NotOk \<or> primary = BadPayload
      \<or> (\<exists>d. primary = Payload d \<and> (ratesJPY d = None \<or> ratesJPY d = Some 0 \<or> \<not> success d))
    \<longrightarrow>
      (\<forall>d2 x. secondary = Payload d2 \<and> ratesJPY d2 = Some x \<and> x \<noteq> 0 \<longrightarrow>
         fetchUsdJpyRate primary secondary
           = Some \<lparr>rate = x, date = payloadDate d2, source = js ''frankfurter.app''\<rparr>
         \<and> resolveRate primary secondary = (x, js ''frankfurter.app''))
      \<and> (secondary = FetchThrew \<or> secondary = NotOk \<or> secondary = BadPayload
           \<or> (\<exists>d2. secondary = Payload d2 \<and> (ratesJPY d2 = None \<or> ratesJPY d2 = Some 0))
         \<longrightarrow> fetchUsdJpyRate primary secondary = None
             \<and> resolveRate primary secondary = (150, js ''default'')))
   \<and> (\<forall>d x. primary = Payload d \<and> success d \<and> ratesJPY d = Some x \<and> x \<noteq> 0 \<longrightarrow>
         resolveRate primary secondary = (x, js ''exchangerate.host''))"
  by (auto simp add: fetchUsdJpyRate_def fetchFromAlternativeApi_def resolveRate_def
      truthyNum_def split: RateOutcome.splits)

theorem exchange_rate_chain_witness:
  "resolveRate NotOk
      (Payload \<lparr>success = False, ratesJPY = Some 151.5, payloadDate = Some (js ''2025-01-06'')\<rparr>)
     = (151.5, js ''frankfurter.app'')
   \<and> resolveRate (Payload \<lparr>success = True, ratesJPY = None, payloadDate = None\<rparr>) FetchThrew
     = (150, js ''default'')"
proof -
  have a: "(NotOk :: RateOutcome) = NotOk" by simp
  have b: "ratesJPY \<lparr>success = True, ratesJPY = None, payloadDate = None\<rparr> = None" by simp
  show ?thesis
    using a b
      exchange_rate_chain [of NotOk
        "Payload \<lparr>success = False, ratesJPY = Some 151.5, payloadDate = Some (js ''2025-01-06'')\<rparr>"]
      exchange_rate_chain [of "Payload \<lparr>success = True, ratesJPY = None, payloadDate = None\<rparr>"
        FetchThrew]
    by simp
qed

subsection \<open>The response of the route\<close>

lemma withPrices_fields:
  "\<exists>y. currentPrice (withPrices prices h) = Some y"
  "\<exists>y. totalValue (withPrices prices h) = Some y"
  "\<exists>y. unrealizedPL (withPrices prices h) = Some y"
  "\<exists>y. unrealizedPLPercent (withPrices prices h) = Some y"
  by (simp_all add: withPrices_def Let_def)

text \<open>
  C8. When reading the holdings fails, \<open>GET\<close> answers with status 500, the error's
  message, no holdings, no categories, no summary and the exchange rate 150. In every
  other case, whatever the quote sources, the cached prices and the rate providers do,
  it answers with status 200 and no error: one valued holding per stored holding, and
  either the empty snapshot (no holdings stored) or a snapshot with summary, price
  source, rate source and total.
\<close>

theorem total_failure_response:
  "(getHoldings env = Inl e \<longrightarrow>
      GET env = \<lparr>status = 500, rerror = Some (errorMessage e), rholdings = [],
                 rsummary = None, rcategories = [], exchangeRate = 150,
                 exchangeRateSource = None, priceSource = None, rtotalValueJPY = None,
                 rsource = js ''error'', updatedAt = nowISO env\<rparr>)
   \<and> (getHoldings env = Inr stored \<longrightarrow>
        status (GET env) = 200 \<and> rerror (GET env) = None
        \<and> length (rholdings (GET env)) = length stored
        \<and> (\<forall>h \<in> set (rholdings (GET env)).
              currentPrice h \<noteq> None \<and> totalValue h \<noteq> None
              \<and> unrealizedPL h \<noteq> None \<and> unrealizedPLPercent h \<noteq> None)
        \<and> (stored = [] \<longrightarrow> rsummary (GET env) = None \<and> rcategories (GET env) = []
              \<and> exchangeRate (GET env) = 150 \<and> rsource (GET env) = js ''empty'')
        \<and> (stored \<noteq> [] \<longrightarrow> rsummary (GET env) \<noteq> None \<and> priceSource (GET env) \<noteq> None
              \<and> exchangeRateSource (GET env) \<noteq> None \<and> rtotalValueJPY (GET env) \<noteq> None
              \<and> rsource (GET env) = js ''live''))"
  by (auto simp add: GET_def errorResponse_def emptyResponse_def Let_def
      calculateHoldingsValue_def withPrices_fields)

theorem total_failure_response_witness:
  "getHoldings storeDownEnv
     = Inl (ErrorObject (js ''GOOGLE_CREDENTIALS environment variable is not set''))
   \<and> status (GET storeDownEnv) = 500 \<and> rholdings (GET storeDownEnv) = []
   \<and> exchangeRate (GET storeDownEnv) = 150
   \<and> getHoldings offlineEnv = Inr [apple]
   \<and> status (GET offlineEnv) = 200 \<and> length (rholdings (GET offlineEnv)) = 1"
proof -
  have a: "getHoldings storeDownEnv
     = Inl (ErrorObject (js ''GOOGLE_CREDENTIALS environment variable is not set''))"
    by (simp add: storeDownEnv_def)
  have b: "getHoldings offlineEnv = Inr [apple]"
    by (simp add: offlineEnv_def)
  show ?thesis
    using a b
      total_failure_response [of storeDownEnv
        "ErrorObject (js ''GOOGLE_CREDENTIALS environment variable is not set'')" "[]"]
      total_failure_response [of offlineEnv OtherValue "[apple]"]
    by simp
qed

subsection \<open>The three price tiers\<close>











subsection \<open>Category summary\<close>

lemma foldl_plus_sum_list: "foldl (\<lambda>a b. a + b) a xs = a + sum_list (xs :: real list)"
  by (induction xs arbitrary: a) simp_all

lemma sum_list_map_insort_key:
  "sum_list (map f (insort_key k x xs)) = (f x :: real) + sum_list (map f xs)"
  by (induction xs) simp_all

lemma sum_list_map_sort_key:
  "sum_list (map f (sort_key k xs)) = (sum_list (map f xs) :: real)"
  by (induction xs) (simp_all add: sum_list_map_insort_key)

lemma sum_list_scaled:
  "sum_list (map (\<lambda>e. snd e * 100 / g) xs) = sum_list (map snd xs) * 100 / (g :: real)"
  by (induction xs) (simp_all add: add_divide_distrib distrib_right)

lemma toSummary_fields:
  "csvalue (toSummary g e) = snd e"
  "percentage (toSummary g e) = (if g > 0 then (snd e / g) * 100 else 0)"
  by (simp_all add: toSummary_def Let_def)

text \<open>
  C4. The grand total is the sum of the values of the summaries. When it is positive
  the percentages of the summaries add up to 100 (exactly, in exact arithmetic, hence
  within 0.01); when it is 0 every percentage is 0.
\<close>

theorem category_percentages:
  "(0 < sum_list (map csvalue (generateCategorySummary hs assets prices r)) \<longrightarrow>
      sum_list (map percentage (generateCategorySummary hs assets prices r)) = 100
      \<and> \<bar>sum_list (map percentage (generateCategorySummary hs assets prices r)) - 100\<bar>
          \<le> 1 / 100)
   \<and> (sum_list (map csvalue (generateCategorySummary hs assets prices r)) = 0 \<longrightarrow>
        (\<forall>c \<in> set (generateCategorySummary hs assets prices r). percentage c = 0))"
proof -
  let ?tot = "categoryTotalsOf hs assets prices r"
  let ?g = "sum_list (map snd ?tot)"
  have gen: "generateCategorySummary hs assets prices r
      = sort_key (\<lambda>c. - csvalue c) (map (toSummary ?g) ?tot)"
    by (simp add: generateCategorySummary_def Let_def foldl_plus_sum_list)
  have vals: "sum_list (map csvalue (generateCategorySummary hs assets prices r)) = ?g"
    by (simp add: gen sum_list_map_sort_key comp_def toSummary_fields)
  have pos: "0 < ?g \<Longrightarrow>
      sum_list (map percentage (generateCategorySummary hs assets prices r)) = 100"
    by (simp add: gen sum_list_map_sort_key comp_def toSummary_fields sum_list_scaled)
  have zero: "?g = 0 \<Longrightarrow> c \<in> set (generateCategorySummary hs assets prices r)
      \<Longrightarrow> percentage c = 0" for c
    by (auto simp add: gen toSummary_fields)
  show ?thesis
    using pos zero by (simp add: vals)
qed

lemma two_categories:
  "generateCategorySummary [toyota, apple] []
     [(js ''AAPL'', \<lparr>price = 182.5, pcurrency = js ''USD''\<rparr>)] 150
   = [\<lparr>cscategory = us_stock, label = [31859, 22269, 26666, 24335], csvalue = 1368750,
       valueJPY = 1368750, percentage = 36500 / 429, color = js ''#22c55e''\<rparr>,
      \<lparr>cscategory = domestic_stock, label = [22269, 20869, 26666, 24335], csvalue = 240000,
       valueJPY = 240000, percentage = 6400 / 429, color = js ''#6366f1''\<rparr>]"
  by (simp add: generateCategorySummary_def categoryTotalsOf_def addToCategory_def
      holdingValueJPY_def holdingCurrentPrice_def mget_def mset_entry_def orNum_def
      toyota_def apple_def js_def toSummary_def CATEGORY_CONFIG_def convertUsdToJpy_def Let_def)

theorem category_percentages_witness:
  "0 < sum_list (map csvalue (generateCategorySummary [toyota, apple] []
         [(js ''AAPL'', \<lparr>price = 182.5, pcurrency = js ''USD''\<rparr>)] 150))
   \<and> sum_list (map percentage (generateCategorySummary [toyota, apple] []
         [(js ''AAPL'', \<lparr>price = 182.5, pcurrency = js ''USD''\<rparr>)] 150)) = 100
   \<and> sum_list (map csvalue (generateCategorySummary [toyota\<lparr>quantity := 0\<rparr>] [] [] 150)) = 0
   \<and> map percentage (generateCategorySummary [toyota\<lparr>quantity := 0\<rparr>] [] [] 150) = [0]"
proof -
  have z: "generateCategorySummary [toyota\<lparr>quantity := 0\<rparr>] [] [] 150
     = [\<lparr>cscategory = domestic_stock, label = [22269, 20869, 26666, 24335], csvalue = 0,
         valueJPY = 0, percentage = 0, color = js ''#6366f1''\<rparr>]"
    by (simp add: generateCategorySummary_def categoryTotalsOf_def addToCategory_def
      holdingValueJPY_def holdingCurrentPrice_def mget_def mset_entry_def orNum_def
      toyota_def js_def toSummary_def CATEGORY_CONFIG_def Let_def)
  have a: "0 < sum_list (map csvalue (generateCategorySummary [toyota, apple] []
         [(js ''AAPL'', \<lparr>price = 182.5, pcurrency = js ''USD''\<rparr>)] 150))"
    using two_categories by simp
  have b: "sum_list (map csvalue (generateCategorySummary [toyota\<lparr>quantity := 0\<rparr>] [] [] 150)) = 0"
    by (simp add: z)
  show ?thesis
    using a b
      category_percentages [of "[toyota, apple]" "[]"
        "[(js ''AAPL'', \<lparr>price = 182.5, pcurrency = js ''USD''\<rparr>)]" 150]
      category_percentages [of "[toyota\<lparr>quantity := 0\<rparr>]" "[]" "[]" 150]
    by (simp add: z)
qed

subsection \<open>The matcher on the patterns of the source\<close>

lemma takeWhile_all_length:
  "(length xs \<le> length (takeWhile P xs)) = (\<forall>x \<in> set xs. P x)"
  by (induction xs) auto

lemma giveBack_end:
  "giveBack [EndAnchor] s opened cap k lo = (if length s \<le> k then Some cap else None)"
proof (induction k)
  case 0
  then show ?case by (subst giveBack.simps) simp
next
  case (Suc k)
  then show ?case by (subst giveBack.simps) (simp add: not_less_eq_eq)
qed

lemma alnum_run:
  "(matchAnchored [Rep isAlnum 8 None, EndAnchor] s \<noteq> None)
     = (8 \<le> length s \<and> (\<forall>c \<in> set s. isAlnum c))"
proof -
  have "length (takeWhile isAlnum s) \<le> length s"
    by (rule length_takeWhile_le)
  then show ?thesis
    using takeWhile_all_length [of s isAlnum]
    by (auto simp add: matchAnchored_def Let_def giveBack_end)
qed

lemma some_letter:
  "(matchFirst [One isLetter] s \<noteq> None) = (\<exists>c \<in> set s. isLetter c)"
  by (induction s) auto

lemma isMutualFundCode_iff:
  "isMutualFundCode s
     = (8 \<le> length s \<and> (\<forall>c \<in> set s. isAlnum c) \<and> (\<exists>c \<in> set s. isLetter c))"
  unfolding isMutualFundCode_def by (simp only: alnum_run some_letter conj_assoc)










subsection \<open>The net asset value of a fund page\<close>

lemma navCandidate_empty: "navCandidate (Some []) = None"
  by (simp add: navCandidate_def stripCommas_def parseFloat_def)




lemmas pattern_defs = priceMatch_def priceMatch2_def priceMatch3_def ogMatch_def dataMatch_def
  nameMatch_def changeMatch_def lit_def js_def kijunKagaku_def yen_def zenjitsuHi_def
  notQuote_def notGt_def isDigitOrComma_def isDigit_def isSpace_def isPrefix_def giveBack.simps

lemma sample_matches:
  "navMatches samplePage = [None, None, Some (js ''12,345''), None, None]"
  by (simp add: navMatches_def samplePage_def pattern_defs)

lemma sample_price: "navPrice samplePage = 12345"
  by (simp add: navPrice_def sample_matches js_def stripCommas_def parseFloat_def
      parseDigits_def digitsValue_def isDigit_def)

lemma sample_quote:
  "fetchMutualFundNAV (\<lambda>c. Some samplePage) code
     = Some \<lparr>qsymbol = code, qname = code, qprice = 12345, previousClose = Some 12345,
             change = Some 0, changePercent = 0, qcurrency = JPY\<rparr>"
proof -
  have n: "matchFirst nameMatch samplePage = None"
    by (simp add: samplePage_def pattern_defs)
  have c: "matchFirst changeMatch samplePage = None"
    by (simp add: samplePage_def pattern_defs)
  show ?thesis
    by (simp add: fetchMutualFundNAV_def sample_price n c)
qed









subsection \<open>The five patterns on the text they are written for\<close>










subsection \<open>The number of a match\<close>









subsection \<open>Routing in the batch fetcher\<close>

lemma storeQuotes_mget:
  assumes "\<And>x q. f x = Some q \<Longrightarrow> qsymbol q = x"
  shows "mget (storeQuotes (map f xs) res) s
     = (if s \<in> set xs \<and> f s \<noteq> None then f s else mget res s)"
proof (induction xs arbitrary: res)
  case Nil
  then show ?case by (simp add: storeQuotes_def)
next
  case (Cons x xs)
  have step: "storeQuotes (map f (x # xs)) res
      = storeQuotes (map f xs)
          (case f x of None \<Rightarrow> res | Some q \<Rightarrow> mset_entry (qsymbol q) q res)"
    by (simp add: storeQuotes_def)
  show ?case
  proof (cases "f x")
    case None
    then show ?thesis
      unfolding step by (auto simp add: Cons.IH)
  next
    case (Some q)
    then have "qsymbol q = x" by (rule assms)
    with Some show ?thesis
      unfolding step by (auto simp add: Cons.IH mget_mset_entry)
  qed
qed

lemma fetchBatches_mget:
  assumes "\<forall>x q. f x = Some q \<longrightarrow> qsymbol q = x"
  shows "mget (fetchBatches f syms res) s
     = (if s \<in> set syms \<and> f s \<noteq> None then f s else mget res s)"
  using assms
proof (induction f syms res rule: fetchBatches.induct)
  case (1 fetchOne syms results)
  have symb: "\<And>x q. fetchOne x = Some q \<Longrightarrow> qsymbol q = x"
    using "1.prems" by blast
  show ?case
  proof (cases "syms = []")
    case True
    then show ?thesis by (subst fetchBatches.simps) simp
  next
    case False
    have split: "set syms = set (take 5 syms) \<union> set (drop 5 syms)"
      by (metis append_take_drop_id set_append)
    have sq: "mget (storeQuotes (map fetchOne (take 5 syms)) results) s
        = (if s \<in> set (take 5 syms) \<and> fetchOne s \<noteq> None then fetchOne s
           else mget results s)"
      by (rule storeQuotes_mget) (rule symb)
    have "mget (fetchBatches fetchOne syms results) s
        = mget (fetchBatches fetchOne (drop 5 syms)
                  (storeQuotes (map fetchOne (take 5 syms)) results)) s"
      using False by (subst fetchBatches.simps) simp
    also have "\<dots> = (if s \<in> set (drop 5 syms) \<and> fetchOne s \<noteq> None then fetchOne s
                     else mget (storeQuotes (map fetchOne (take 5 syms)) results) s)"
      using False "1.prems" by (rule "1.IH")
    also have "\<dots> = (if s \<in> set syms \<and> fetchOne s \<noteq> None then fetchOne s
                     else mget results s)"
      unfolding sq split by auto
    finally show ?thesis .
  qed
qed

lemma stock_quote_symbol: "fetchStockPriceV8 chart x = Some q \<Longrightarrow> qsymbol q = x"
  by (auto simp add: fetchStockPriceV8_def Let_def split: option.splits)

lemma fund_quote_symbol: "fetchMutualFundNAV page x = Some q \<Longrightarrow> qsymbol q = x"
  by (auto simp add: fetchMutualFundNAV_def Let_def split: option.splits if_splits)

lemma routing:
  "mget (fetchMultipleStockPrices chart page symbols) s
     = (if s \<in> set symbols
        then (if isMutualFundCode s then fetchMutualFundNAV page s
              else fetchStockPriceV8 chart s)
        else None)"
  by (auto simp add: fetchMultipleStockPrices_def Let_def mget_def [of "[]"]
      fetchBatches_mget stock_quote_symbol fund_quote_symbol)

lemma digit_not_letter: "isDigit c \<Longrightarrow> \<not> isLetter c"
  by (auto simp add: isDigit_def isLetter_def)

text \<open>
  C9. A symbol is a fund code for the batch fetcher exactly when it has at least eight
  code units, all of them ASCII letters or digits, and at least one of them a letter.
  A symbol of digits only, such as \<open>47316169\<close>, is not one. For every symbol of the
  input, the quote stored under it is the one the fund path gives when the symbol is a
  fund code and the one the equity path gives otherwise; the symbol is in exactly one of
  the two lists.
\<close>

theorem fund_code_routing:
  "isMutualFundCode s
     = (8 \<le> length s \<and> (\<forall>c \<in> set s. isAlnum c) \<and> (\<exists>c \<in> set s. isLetter c))
   \<and> ((\<forall>c \<in> set s. isDigit c) \<longrightarrow> \<not> isMutualFundCode s)
   \<and> \<not> isMutualFundCode (js ''47316169'')
   \<and> (s \<in> set symbols \<longrightarrow>
        mget (fetchMultipleStockPrices chart page symbols) s
          = (if isMutualFundCode s then fetchMutualFundNAV page s
             else fetchStockPriceV8 chart s))
   \<and> (s \<in> set symbols \<longrightarrow>
        (s \<in> set (filter (\<lambda>x. isMutualFundCode x) symbols))
          \<noteq> (s \<in> set (filter (\<lambda>x. \<not> isMutualFundCode x) symbols)))"
proof (intro conjI)
  show "isMutualFundCode s
     = (8 \<le> length s \<and> (\<forall>c \<in> set s. isAlnum c) \<and> (\<exists>c \<in> set s. isLetter c))"
    by (rule isMutualFundCode_iff)
  show "(\<forall>c \<in> set s. isDigit c) \<longrightarrow> \<not> isMutualFundCode s"
    by (auto simp add: isMutualFundCode_iff digit_not_letter)
  show "\<not> isMutualFundCode (js ''47316169'')"
    by (simp add: isMutualFundCode_iff js_def isLetter_def)
  show "s \<in> set symbols \<longrightarrow>
        mget (fetchMultipleStockPrices chart page symbols) s
          = (if isMutualFundCode s then fetchMutualFundNAV page s
             else fetchStockPriceV8 chart s)"
    by (simp add: routing)
  show "s \<in> set symbols \<longrightarrow>
        (s \<in> set (filter (\<lambda>x. isMutualFundCode x) symbols))
          \<noteq> (s \<in> set (filter (\<lambda>x. \<not> isMutualFundCode x) symbols))"
    by simp
qed

theorem fund_code_routing_witness:
  "js ''47316169'' \<in> set [js ''47316169'', js ''9331107A'']
   \<and> \<not> isMutualFundCode (js ''47316169'')
   \<and> mget (fetchMultipleStockPrices (\<lambda>s. None) (\<lambda>c. Some samplePage)
             [js ''47316169'', js ''9331107A'']) (js ''47316169'') = None
   \<and> js ''9331107A'' \<in> set [js ''47316169'', js ''9331107A'']
   \<and> map_option qprice
        (mget (fetchMultipleStockPrices (\<lambda>s. None) (\<lambda>c. Some samplePage)
                 [js ''47316169'', js ''9331107A'']) (js ''9331107A'')) = Some 12345"
proof -
  have a: "js ''47316169'' \<in> set [js ''47316169'', js ''9331107A'']" by simp
  have b: "js ''9331107A'' \<in> set [js ''47316169'', js ''9331107A'']" by simp
  have d: "\<forall>c \<in> set (js ''47316169''). isDigit c"
    by (simp add: js_def isDigit_def)
  have m: "isMutualFundCode (js ''9331107A'')"
    by (simp add: isMutualFundCode_iff js_def isAlnum_def isLetter_def isDigit_def)
  have e: "fetchStockPriceV8 (\<lambda>s. None) (js ''47316169'') = None"
    by (simp add: fetchStockPriceV8_def)
  show ?thesis
    using a b d m e
      fund_code_routing [of "js ''47316169''" "[js ''47316169'', js ''9331107A'']"
        "\<lambda>s. None" "\<lambda>c. Some samplePage"]
      fund_code_routing [of "js ''9331107A''" "[js ''47316169'', js ''9331107A'']"
        "\<lambda>s. None" "\<lambda>c. Some samplePage"]
    by (simp add: sample_quote)
qed

subsection \<open>Day change\<close>

lemma mget_previousPricesOf:
  assumes "distinct (map fst prices)"
  shows "mget (previousPricesOf prices pcm) s
     = map_option (\<lambda>pd. \<lparr>price = orNum (prevCloseOf pcm s) (price pd),
                           pcurrency = pcurrency pd\<rparr>) (mget prices s)"
proof -
  have "mget (previousPricesOf prices pcm) s
      = (case map_of (rev prices) s of
           None \<Rightarrow> mget [] s
         | Some pd \<Rightarrow> Some \<lparr>price = orNum (prevCloseOf pcm s) (price pd),
                               pcurrency = pcurrency pd\<rparr>)"
    unfolding previousPricesOf_def
    by (rule mget_foldl_entries
        [where g = "\<lambda>k pd. \<lparr>price = orNum (prevCloseOf pcm k) (price pd),
                               pcurrency = pcurrency pd\<rparr>"])
  then show ?thesis
    by (simp add: map_of_rev_distinct [OF assms] mget_def split: option.splits)
qed

lemma mget_estimatedPreviousPrices:
  assumes "distinct (map fst prices)"
  shows "mget (estimatedPreviousPrices prices) s
     = map_option (\<lambda>pd. \<lparr>price = price pd * 0.998, pcurrency = pcurrency pd\<rparr>)
         (mget prices s)"
proof -
  have "mget (estimatedPreviousPrices prices) s
      = (case map_of (rev prices) s of
           None \<Rightarrow> mget [] s
         | Some pd \<Rightarrow> Some \<lparr>price = price pd * 0.998, pcurrency = pcurrency pd\<rparr>)"
    unfolding estimatedPreviousPrices_def
    by (rule mget_foldl_entries
        [where g = "\<lambda>k pd. \<lparr>price = price pd * 0.998, pcurrency = pcurrency pd\<rparr>"])
  then show ?thesis
    by (simp add: map_of_rev_distinct [OF assms] mget_def split: option.splits)
qed

text \<open>
  C7, as the code has it. In the route that keeps the previous closes of the quotes, the
  day change of a holding is \<open>(current price - previous close) * quantity\<close> when the map
  of previous closes has a usable (non-zero, non-\<open>NaN\<close>) value for its symbol; without
  one the previous close is taken to be the current price, and the day change and its
  percentage are \<open>0\<close>. The previous-price map given to the portfolio summary follows the
  same rule, symbol by symbol. The route of \<open>route.ts\<close> keeps no previous close: its
  previous price of a symbol is \<open>0.998\<close> times the current price.
\<close>

theorem holding_day_change:
  "(mget pcm (symbol h) = Some (Some pc) \<and> pc \<noteq> 0 \<longrightarrow>
      holdingDayChange (withDayChange prices pcm h)
        = (holdingCurrentPrice prices h - pc) * quantity h)
   \<and> (mget pcm (symbol h) = None \<or> mget pcm (symbol h) = Some None
        \<or> mget pcm (symbol h) = Some (Some 0) \<longrightarrow>
      holdingDayChange (withDayChange prices pcm h) = 0
      \<and> holdingDayChangePercent (withDayChange prices pcm h) = 0)
   \<and> currentPrice (withDayChange prices pcm h) = Some (holdingCurrentPrice prices h)
   \<and> (distinct (map fst prices) \<and> mget prices s = Some pd \<longrightarrow>
        map_option price (mget (previousPricesOf prices pcm) s)
          = Some (case mget pcm s of
                    Some (Some c) \<Rightarrow> if c = 0 then price pd else c
                  | _ \<Rightarrow> price pd))
   \<and> (distinct (map fst prices) \<and> mget prices s = Some pd \<longrightarrow>
        map_option price (mget (estimatedPreviousPrices prices) s)
          = Some (price pd * 0.998))"
  by (auto simp add: withDayChange_def Let_def holdingCurrentPrice_def prevCloseOf_def
      orNum_def Holding.extend_def HoldingWithChange.fields_def Holding.defs
      HoldingWithChange.defs mget_previousPricesOf mget_estimatedPreviousPrices
      split: option.splits)

theorem holding_day_change_witness:
  "mget [(js ''AAPL'', Some (180::real))] (symbol apple) = Some (Some 180)
   \<and> holdingDayChange (withDayChange
        [(js ''AAPL'', \<lparr>price = 182.5, pcurrency = js ''USD''\<rparr>)]
        [(js ''AAPL'', Some 180)] apple) = 125
   \<and> mget [(js ''AAPL'', Some (180::real))] (symbol toyota) = None
   \<and> holdingDayChange (withDayChange
        [(js ''AAPL'', \<lparr>price = 182.5, pcurrency = js ''USD''\<rparr>)]
        [(js ''AAPL'', Some 180)] toyota) = 0"
proof -
  have a: "mget [(js ''AAPL'', Some (180::real))] (symbol apple) = Some (Some 180)"
    by (simp add: mget_def apple_def)
  have b: "mget [(js ''AAPL'', Some (180::real))] (symbol toyota) = None"
    by (simp add: mget_def toyota_def js_def)
  have c: "holdingCurrentPrice [(js ''AAPL'', \<lparr>price = 182.5, pcurrency = js ''USD''\<rparr>)] apple
      = 182.5"
    by (simp add: holdingCurrentPrice_def mget_def apple_def orNum_def)
  show ?thesis
    using a b c
      holding_day_change [of "[(js ''AAPL'', Some 180)]" apple 180
        "[(js ''AAPL'', \<lparr>price = 182.5, pcurrency = js ''USD''\<rparr>)]"]
      holding_day_change [of "[(js ''AAPL'', Some 180)]" toyota 180
        "[(js ''AAPL'', \<lparr>price = 182.5, pcurrency = js ''USD''\<rparr>)]"]
    by (simp add: apple_def)
qed

text \<open>
  The claim as the specification states it fails on the route of \<open>route.ts\<close>: the quote
  of the holding has no previous close other than its own price, and the day change that
  the route reports is 2737.5, not 0.
\<close>

lemma apple_quote:
  "fetchStockPriceV8 (chartOf noPreviousCloseEnv) (js ''AAPL'')
     = Some \<lparr>qsymbol = js ''AAPL'', qname = js ''Apple Inc.'', qprice = 182.5,
             previousClose = Some 182.5, change = Some 0, changePercent = 0,
             qcurrency = USD\<rparr>"
  by (simp add: fetchStockPriceV8_def noPreviousCloseEnv_def orNum_def orStr_def closeAt_def
      Let_def js_def)

lemma apple_not_fund: "\<not> isMutualFundCode (js ''AAPL'')"
  by (simp add: isMutualFundCode_iff js_def)

lemma apple_live:
  "fetchMultipleStockPrices (chartOf noPreviousCloseEnv) (pageOf noPreviousCloseEnv) [js ''AAPL'']
     = [(js ''AAPL'', \<lparr>qsymbol = js ''AAPL'', qname = js ''Apple Inc.'', qprice = 182.5,
             previousClose = Some 182.5, change = Some 0, changePercent = 0,
             qcurrency = USD\<rparr>)]"
  by (simp add: fetchMultipleStockPrices_def apple_not_fund Let_def fetchBatches.simps
      storeQuotes_def apple_quote mset_entry_def)

lemma apple_prices:
  "fst (priceTiers (Inr (fetchMultipleStockPrices (chartOf noPreviousCloseEnv)
          (pageOf noPreviousCloseEnv) [js ''AAPL''])) (getLatestPrices noPreviousCloseEnv)
          [toHolding apple])
     = [(js ''AAPL'', \<lparr>price = 182.5, pcurrency = js ''USD''\<rparr>)]"
  by (simp add: apple_live priceTiers_def quoteEntry_def mset_entry_def currencyTag_def)

theorem estimated_day_change:
  "map_option qprice (fetchStockPriceV8 (chartOf noPreviousCloseEnv) (js ''AAPL''))
     = Some 182.5
   \<and> map_option previousClose (fetchStockPriceV8 (chartOf noPreviousCloseEnv) (js ''AAPL''))
     = Some (Some 182.5)
   \<and> map_option dayChange (rsummary (GET noPreviousCloseEnv)) = Some 2737.5"
proof -
  have s: "symbol (toHolding apple) = js ''AAPL''"
    by (simp add: toHolding_def apple_def)
  have h: "getHoldings noPreviousCloseEnv = Inr [apple]"
    by (simp add: noPreviousCloseEnv_def)
  have r: "resolveRate (primaryRate noPreviousCloseEnv) (secondaryRate noPreviousCloseEnv)
      = (150, js ''default'')"
    by (simp add: resolveRate_def fetchUsdJpyRate_def fetchFromAlternativeApi_def
        noPreviousCloseEnv_def)
  have g: "rsummary (GET noPreviousCloseEnv)
      = Some (generatePortfolioSummary (yearOfDate noPreviousCloseEnv)
                (nowYear noPreviousCloseEnv) [toHolding apple] [] [] []
                [(js ''AAPL'', \<lparr>price = 182.5, pcurrency = js ''USD''\<rparr>)]
                (estimatedPreviousPrices
                   [(js ''AAPL'', \<lparr>price = 182.5, pcurrency = js ''USD''\<rparr>)]) 150)"
    by (simp add: GET_def h s Let_def apple_prices r)
  have d: "dayChange (generatePortfolioSummary y n [toHolding apple] [] [] []
                [(js ''AAPL'', \<lparr>price = 182.5, pcurrency = js ''USD''\<rparr>)]
                (estimatedPreviousPrices
                   [(js ''AAPL'', \<lparr>price = 182.5, pcurrency = js ''USD''\<rparr>)]) 150) = 2737.5"
    for y n
    by (simp add: generatePortfolioSummary_def Let_def
        estimatedPreviousPrices_def mset_entry_def calculateHoldingsValue_def
        holdingValueJPY_def holdingCurrentPrice_def mget_def orNum_def toHolding_def apple_def
        convertUsdToJpy_def calculateOtherAssetsValue_def)
  have "map_option dayChange (rsummary (GET noPreviousCloseEnv)) = Some 2737.5"
    by (simp only: g option.map d)
  then show ?thesis
    by (simp add: apple_quote)
qed

subsection \<open>Symbol normalisation\<close>










end
